theory Spec2Isabelle
  imports Complex_Main "HOL-Library.AList"
begin

section \<open>Python values used by the schedule-generation engine\<close>

text \<open>
  The engine is the class \<open>StudyPlanGenerator\<close> of \<open>study_plan_generator.py\<close>. Its
  methods are embedded as HOL functions of the same name, without the leading underscore
  of the private ones. Every exception the Python can raise is a value \<open>Inl e\<close> of the
  result type \<open>py_error + 'a\<close>.

  Python's \<open>float\<close> is idealised as \<open>real\<close>: \<open>daily_hours\<close>, the allocation weights and
  the selection scores are exact numbers here, so the literals \<open>1.5\<close>, \<open>1.3\<close>, \<open>0.4\<close>,
  \<open>0.2\<close>, \<open>0.3\<close>, \<open>0.6\<close> and \<open>0.85\<close> are the fractions they denote. The one product
  whose integer part is stored, \<open>daily_hours * 60\<close> of the session duration, is rounded
  to a double as Python rounds it (\<open>float_round\<close> below). Python's \<open>int\<close> is \<open>int\<close>.
\<close>

datatype py_error = ZeroDivisionError | ValueError | KeyError | OverflowError | IndexError

text \<open>\<open>int(x)\<close> of a float truncates towards zero.\<close>

definition py_int :: "real \<Rightarrow> int" where
  "py_int x = (if 0 \<le> x then \<lfloor>x\<rfloor> else \<lceil>x\<rceil>)"

text \<open>The nearest integer, a tie going to the even neighbour.\<close>

definition round_half_even :: "real \<Rightarrow> int" where
  "round_half_even x =
     (let lower = \<lfloor>x\<rfloor>; part = x - real_of_int lower
      in if part < 1 / 2 then lower
         else if 1 / 2 < part then lower + 1
         else if even lower then lower else lower + 1)"

text \<open>
  The result of a floating-point operation is its exact result rounded to the nearest
  double, a tie going to the even significand. \<open>binade a\<close> is the \<open>k\<close> with
  \<open>2 ^ (k - 1) \<le> a < 2 ^ k\<close>; a double there is a multiple of \<open>2 ^ (k - 53)\<close>, and
  below \<open>2 ^ -1022\<close> a multiple of \<open>2 ^ -1074\<close>. The exponent has no upper limit here: a
  result of \<open>2 ^ 1024\<close> or more, which Python turns into \<open>inf\<close>, is rounded like any
  other.
\<close>

fun bit_length :: "nat \<Rightarrow> nat" where
  "bit_length n = (if n = 0 then 0 else Suc (bit_length (n div 2)))"

declare bit_length.simps [simp del]

definition two_to :: "int \<Rightarrow> real" where
  "two_to k = (if 0 \<le> k then 2 ^ nat k else 1 / 2 ^ nat (- k))"

definition binade :: "real \<Rightarrow> int" where
  "binade a =
     (if 1 \<le> a then int (bit_length (nat \<lfloor>a\<rfloor>))
      else 1 - int (bit_length (nat (\<lceil>1 / a\<rceil> - 1))))"

definition float_round :: "real \<Rightarrow> real" where
  "float_round x =
     (if x = 0 then 0
      else
        (let a = \<bar>x\<bar>;
             ulp = two_to (max (binade a) (- 1021) - 53);
             m = round_half_even (a / ulp)
         in if x < 0 then - (real_of_int m * ulp) else real_of_int m * ulp))"

text \<open>\<open>xs.index(x)\<close>: the first position of \<open>x\<close>, or \<open>ValueError\<close>.\<close>

fun py_index :: "'a list \<Rightarrow> 'a \<Rightarrow> py_error + nat" where
  "py_index [] x = Inl ValueError"
| "py_index (y # ys) x =
     (if y = x then Inr 0
      else (case py_index ys x of Inl e \<Rightarrow> Inl e | Inr i \<Rightarrow> Inr (Suc i)))"

text \<open>
  Subscription \<open>xs[i]\<close> of a list: positions \<open>0 .. len - 1\<close> count from the front,
  positions \<open>-len .. -1\<close> from the back, every other position raises \<open>IndexError\<close>.
\<close>

definition py_getitem :: "'a list \<Rightarrow> int \<Rightarrow> py_error + 'a" where
  "py_getitem xs i =
     (if 0 \<le> i \<and> i < int (length xs) then Inr (xs ! nat i)
      else if i < 0 \<and> - int (length xs) \<le> i then Inr (xs ! nat (int (length xs) + i))
      else Inl IndexError)"

section \<open>Enumerations and records\<close>

datatype DifficultyLevel = BEGINNER | INTERMEDIATE | ADVANCED | EXPERT

fun DifficultyLevel_value :: "DifficultyLevel \<Rightarrow> string" where
  "DifficultyLevel_value BEGINNER = ''beginner''"
| "DifficultyLevel_value INTERMEDIATE = ''intermediate''"
| "DifficultyLevel_value ADVANCED = ''advanced''"
| "DifficultyLevel_value EXPERT = ''expert''"

text \<open>One entry of a session's \<open>breaks\<close> list: the dictionary with the keys
  \<open>after_minutes\<close>, \<open>duration_minutes\<close> and \<open>type\<close>.\<close>

record break =
  after_minutes :: int
  duration_minutes :: int
  break_type :: string

section \<open>Pomodoro breaks\<close>

text \<open>
  The \<open>while elapsed < duration_minutes\<close> loop of \<open>_calculate_breaks\<close>, with the loop
  variables \<open>elapsed\<close>, \<open>completed_pomodoros\<close> and \<open>breaks\<close> as arguments. The constants
  are \<open>pomodoro_cycle = 25\<close>, \<open>short_break = 5\<close> and \<open>long_break = 15\<close>.
\<close>

function calculate_breaks_loop :: "int \<Rightarrow> int \<Rightarrow> int \<Rightarrow> break list \<Rightarrow> break list" where
  "calculate_breaks_loop duration elapsed completed_pomodoros breaks =
     (if elapsed < duration then
        (let work_time = min 25 (duration - elapsed);
             elapsed1 = elapsed + work_time;
             completed1 = completed_pomodoros + 1
         in if elapsed1 < duration then
              (let break_time = (if completed1 mod 4 = 0 then 15 else 5)
               in calculate_breaks_loop duration (elapsed1 + break_time) completed1
                    (breaks @ [\<lparr>after_minutes = elapsed1, duration_minutes = break_time,
                                break_type = (if break_time = 15 then ''long'' else ''short'')\<rparr>]))
            else calculate_breaks_loop duration elapsed1 completed1 breaks)
      else breaks)"
  by pat_completeness auto
termination
  by (relation "measure (\<lambda>(d, e, c, b). nat (d - e))") (auto simp: Let_def min_def)

definition calculate_breaks :: "int \<Rightarrow> break list" where
  "calculate_breaks duration = calculate_breaks_loop duration 0 0 []"

section \<open>Difficulty progression\<close>

definition difficulties :: "string list" where
  "difficulties = [''beginner'', ''intermediate'', ''advanced'', ''expert'']"

text \<open>
  \<open>progress_ratio = day / total_days\<close> is a true division, which raises
  \<open>ZeroDivisionError\<close> for \<open>total_days = 0\<close>. The list is indexed at
  \<open>max(0, base_idx - 1)\<close>, \<open>base_idx\<close> or \<open>min(len(difficulties) - 1, base_idx + 1)\<close>.
\<close>

definition get_session_difficulty :: "DifficultyLevel \<Rightarrow> int \<Rightarrow> int \<Rightarrow> py_error + string" where
  "get_session_difficulty base_difficulty day total_days =
     (if total_days = 0 then Inl ZeroDivisionError
      else
        (let progress_ratio = real_of_int day / real_of_int total_days
         in case py_index difficulties (DifficultyLevel_value base_difficulty) of
              Inl e \<Rightarrow> Inl e
            | Inr idx \<Rightarrow>
               (let base_idx = int idx
                in if progress_ratio < 3 / 10 then
                     py_getitem difficulties (max 0 (base_idx - 1))
                   else if progress_ratio < 6 / 10 then
                     py_getitem difficulties base_idx
                   else if progress_ratio < 85 / 100 then
                     py_getitem difficulties (min (int (length difficulties) - 1) (base_idx + 1))
                   else
                     py_getitem difficulties (min (int (length difficulties) - 1) (base_idx + 1)))))"

section \<open>Topic allocation\<close>

text \<open>
  A Python \<open>dict\<close> that the code iterates over is an association list in insertion
  order: \<open>d[k] = v\<close> is \<open>AList.update k v d\<close>, which overwrites the value of a key
  that is present, in place, and appends a new key at the end. A \<open>dict\<close> that is only
  read by key is a map.
\<close>

type_synonym 'v dict = "(string \<times> 'v) list"

text \<open>The body of the first loop of \<open>_calculate_topic_allocation\<close>: the weight of one
  topic. \<open>current_knowledge.get(topic, 0)\<close> defaults to 0.\<close>

definition topic_weight :: "(string \<rightharpoonup> int) \<Rightarrow> string list \<Rightarrow> string \<Rightarrow> real" where
  "topic_weight current_knowledge weak_areas topic =
     (let knowledge = (case current_knowledge topic of None \<Rightarrow> 0 | Some k \<Rightarrow> k);
          base_weight = 100 - knowledge;
          weak_boost = (if topic \<in> set weak_areas then 3 / 2 else 1);
          spaced_boost = (if 30 \<le> knowledge \<and> knowledge \<le> 70 then 13 / 10 else 1)
      in real_of_int base_weight * weak_boost * spaced_boost)"

fun weights_loop ::
  "(string \<rightharpoonup> int) \<Rightarrow> string list \<Rightarrow> string list \<Rightarrow> real dict \<Rightarrow> real dict" where
  "weights_loop current_knowledge weak_areas [] weights = weights"
| "weights_loop current_knowledge weak_areas (topic # rest) weights =
     weights_loop current_knowledge weak_areas rest
       (AList.update topic (topic_weight current_knowledge weak_areas topic) weights)"

text \<open>\<open>total_weight = sum(weights.values())\<close>.\<close>

definition total_weight :: "(string \<rightharpoonup> int) \<Rightarrow> string list \<Rightarrow> string list \<Rightarrow> real" where
  "total_weight current_knowledge weak_areas topics =
     sum_list (map snd (weights_loop current_knowledge weak_areas topics []))"

text \<open>
  The second loop, over \<open>weights.items()\<close>. The division \<open>weight / total_weight\<close> is
  not guarded: Python raises \<open>ZeroDivisionError\<close> when \<open>total_weight\<close> is zero, at the
  first item.
\<close>

fun allocation_loop :: "real \<Rightarrow> real \<Rightarrow> real dict \<Rightarrow> real dict \<Rightarrow> py_error + real dict" where
  "allocation_loop tw total_hours [] allocation = Inr allocation"
| "allocation_loop tw total_hours ((topic, weight) # rest) allocation =
     (if tw = 0 then Inl ZeroDivisionError
      else allocation_loop tw total_hours rest
             (AList.update topic (weight / tw * total_hours) allocation))"

definition calculate_topic_allocation ::
  "string list \<Rightarrow> int \<Rightarrow> real \<Rightarrow> (string \<rightharpoonup> int) \<Rightarrow> string list \<Rightarrow> py_error + real dict" where
  "calculate_topic_allocation topics n_days hours current_knowledge weak_areas =
     (let total_hours = real_of_int n_days * hours;
          weights = weights_loop current_knowledge weak_areas topics []
      in allocation_loop (total_weight current_knowledge weak_areas topics) total_hours
           weights [])"

section \<open>Topic selection\<close>

text \<open>
  \<open>_select_topic_for_day\<close> scores every topic and returns the first key of \<open>scores\<close>
  with the greatest score. The subscriptions \<open>last_studied[topic]\<close>,
  \<open>allocation[topic]\<close> and \<open>study_count[topic]\<close> raise \<open>KeyError\<close> for a missing key,
  in that order; \<open>max\<close> of an empty \<open>scores\<close> raises \<open>ValueError\<close>.
\<close>

definition optimal_intervals :: "int list" where
  "optimal_intervals = [1, 3, 7, 14, 30]"

definition topic_score ::
  "real dict \<Rightarrow> int \<Rightarrow> (string \<rightharpoonup> int) \<Rightarrow> (string \<rightharpoonup> int) \<Rightarrow> string \<Rightarrow> py_error + real" where
  "topic_score allocation day last_studied study_count topic =
     (case last_studied topic of
        None \<Rightarrow> Inl KeyError
      | Some last_day \<Rightarrow>
         (let days_since = day - last_day
          in case map_of allocation topic of
               None \<Rightarrow> Inl KeyError
             | Some allocated \<Rightarrow>
                (case study_count topic of
                   None \<Rightarrow> Inl KeyError
                 | Some times_studied \<Rightarrow>
                    (let remaining = allocated - real_of_int times_studied * (3 / 2);
                         spaced_score =
                           (if times_studied = 0 then 1000
                            else 100 - min_list (map (\<lambda>interval. \<bar>days_since - interval\<bar>)
                                                   optimal_intervals))
                     in Inr (remaining * (4 / 10) + real_of_int spaced_score * (4 / 10)
                             + real_of_int days_since * (2 / 10))))))"

fun scores_loop ::
  "real dict \<Rightarrow> int \<Rightarrow> (string \<rightharpoonup> int) \<Rightarrow> (string \<rightharpoonup> int) \<Rightarrow> string list \<Rightarrow> real dict
     \<Rightarrow> py_error + real dict" where
  "scores_loop allocation day last_studied study_count [] scores = Inr scores"
| "scores_loop allocation day last_studied study_count (topic # rest) scores =
     (case topic_score allocation day last_studied study_count topic of
        Inl e \<Rightarrow> Inl e
      | Inr s \<Rightarrow> scores_loop allocation day last_studied study_count rest
                  (AList.update topic s scores))"

text \<open>
  \<open>max(scores, key=scores.get)\<close> walks the keys in insertion order and replaces its
  candidate only by a key with a strictly greater score, so the first of several maximal
  keys wins.
\<close>

fun max_key_from :: "string \<times> real \<Rightarrow> real dict \<Rightarrow> string" where
  "max_key_from best [] = fst best"
| "max_key_from best (item # rest) =
     max_key_from (if snd best < snd item then item else best) rest"

definition py_max_key :: "real dict \<Rightarrow> py_error + string" where
  "py_max_key scores =
     (case scores of [] \<Rightarrow> Inl ValueError | item # rest \<Rightarrow> Inr (max_key_from item rest))"

definition select_topic_for_day ::
  "string list \<Rightarrow> real dict \<Rightarrow> int \<Rightarrow> (string \<rightharpoonup> int) \<Rightarrow> (string \<rightharpoonup> int) \<Rightarrow> py_error + string" where
  "select_topic_for_day topics allocation day last_studied study_count =
     (case scores_loop allocation day last_studied study_count topics [] of
        Inl e \<Rightarrow> Inl e
      | Inr scores \<Rightarrow> py_max_key scores)"

section \<open>Strings\<close>

definition digit_chars :: string where
  "digit_chars = ''0123456789''"

text \<open>\<open>str(n)\<close> for a natural number.\<close>

fun str_of_nat :: "nat \<Rightarrow> string" where
  "str_of_nat n =
     (if n < 10 then [digit_chars ! n]
      else str_of_nat (n div 10) @ [digit_chars ! (n mod 10)])"

definition str_of_int :: "int \<Rightarrow> string" where
  "str_of_int n = (if n < 0 then CHR ''-'' # str_of_nat (nat (- n)) else str_of_nat (nat n))"

text \<open>
  The format specification \<open>:02d\<close>: the decimal digits, padded with zeros on the left
  to a width of two characters, the sign of a negative number counting as one of them.
\<close>

definition zero_pad :: "nat \<Rightarrow> string \<Rightarrow> string" where
  "zero_pad width s = replicate (width - length s) CHR ''0'' @ s"

definition format_02d :: "int \<Rightarrow> string" where
  "format_02d n =
     (if n < 0 then CHR ''-'' # zero_pad 1 (str_of_nat (nat (- n)))
      else zero_pad 2 (str_of_nat (nat n)))"

text \<open>\<open>s.split(":")[0]\<close>: the part of \<open>s\<close> before its first colon, all of \<open>s\<close> if it has
  none.\<close>

definition before_colon :: "string \<Rightarrow> string" where
  "before_colon s = takeWhile (\<lambda>c. c \<noteq> CHR '':'') s"

text \<open>
  \<open>int(s)\<close> for a string: an optional sign followed by one or more decimal digits; any
  other string raises \<open>ValueError\<close>. (Python also accepts surrounding white space and
  single underscores between digits; the time slots the engine builds have neither.)
\<close>

definition digit_value :: "char \<Rightarrow> nat" where
  "digit_value c = (case py_index digit_chars c of Inl e \<Rightarrow> 0 | Inr i \<Rightarrow> i)"

definition digits_value :: "string \<Rightarrow> nat" where
  "digits_value ds = foldl (\<lambda>acc c. 10 * acc + digit_value c) 0 ds"

definition py_int_of_str :: "string \<Rightarrow> py_error + int" where
  "py_int_of_str s =
     (let negative = (s \<noteq> [] \<and> hd s = CHR ''-'');
          ds = (if s \<noteq> [] \<and> (hd s = CHR ''-'' \<or> hd s = CHR ''+'') then tl s else s)
      in if ds = [] \<or> \<not> list_all (\<lambda>c. c \<in> set digit_chars) ds then Inl ValueError
         else if negative then Inr (- int (digits_value ds))
         else Inr (int (digits_value ds)))"

section \<open>Session composition\<close>

datatype StudyGoal = EXAM_PREP | SKILL_BUILDING | QUICK_REVIEW | DEEP_MASTERY

fun StudyGoal_value :: "StudyGoal \<Rightarrow> string" where
  "StudyGoal_value EXAM_PREP = ''exam_prep''"
| "StudyGoal_value SKILL_BUILDING = ''skill_building''"
| "StudyGoal_value QUICK_REVIEW = ''quick_review''"
| "StudyGoal_value DEEP_MASTERY = ''deep_mastery''"

datatype TimePreference = MORNING | AFTERNOON | EVENING | NIGHT | FLEXIBLE

text \<open>
  \<open>_get_optimal_time_slot\<close>. The end hour is the start hour plus \<open>int(hours)\<close>. A
  flexible preference takes \<open>slots[day % len(slots)]\<close> and reads the start hour back
  from the text of the slot.
\<close>

definition get_optimal_time_slot :: "TimePreference \<Rightarrow> int \<Rightarrow> real \<Rightarrow> py_error + string" where
  "get_optimal_time_slot preference day hours =
     (case preference of
        MORNING \<Rightarrow> Inr (''06:00 - '' @ format_02d (6 + py_int hours) @ '':00'')
      | AFTERNOON \<Rightarrow> Inr (''14:00 - '' @ format_02d (14 + py_int hours) @ '':00'')
      | EVENING \<Rightarrow> Inr (''18:00 - '' @ format_02d (18 + py_int hours) @ '':00'')
      | NIGHT \<Rightarrow> Inr (''21:00 - '' @ format_02d (21 + py_int hours) @ '':00'')
      | FLEXIBLE \<Rightarrow>
         (let slots = [''07:00'', ''14:00'', ''18:00'']
          in case py_getitem slots (day mod int (length slots)) of
               Inl e \<Rightarrow> Inl e
             | Inr start \<Rightarrow>
                (case py_int_of_str (before_colon start) of
                   Inl e \<Rightarrow> Inl e
                 | Inr start_hour \<Rightarrow>
                    Inr (start @ '' - '' @ format_02d (start_hour + py_int hours) @ '':00''))))"

text \<open>\<open>_estimate_focus_level\<close>: the hour is read from the text before the first colon
  of the time slot.\<close>

definition estimate_focus_level :: "string \<Rightarrow> int \<Rightarrow> py_error + string" where
  "estimate_focus_level slot day =
     (case py_int_of_str (before_colon slot) of
        Inl e \<Rightarrow> Inl e
      | Inr hour \<Rightarrow>
         (let focus =
                (if (9 \<le> hour \<and> hour \<le> 11) \<or> (15 \<le> hour \<and> hour \<le> 17) then ''High''
                 else if (6 \<le> hour \<and> hour \<le> 9) \<or> (11 \<le> hour \<and> hour \<le> 15)
                           \<or> (17 \<le> hour \<and> hour \<le> 20) then ''Medium''
                 else ''Low'')
          in Inr (if 20 < day \<and> focus = ''High'' then ''Medium-High'' else focus)))"

text \<open>The table \<open>self.study_techniques\<close> of the constructor and the table
  \<open>style_techniques\<close> of \<open>_select_study_techniques\<close>.\<close>

definition study_techniques_table :: "(string \<times> string list) list" where
  "study_techniques_table =
     [(''beginner'', [''Active Reading'', ''Note Taking'', ''Flashcards'', ''Summary Writing'']),
      (''intermediate'',
         [''Feynman Technique'', ''Mind Mapping'', ''Practice Problems'', ''Peer Discussion'']),
      (''advanced'',
         [''Deep Work Sessions'', ''Research Papers'', ''Project-Based Learning'',
          ''Teaching Others'']),
      (''expert'',
         [''Original Research'', ''Advanced Problem Solving'', ''Critical Analysis'',
          ''Innovation Projects''])]"

definition style_techniques :: "(string \<times> string list) list" where
  "style_techniques =
     [(''visual'', [''Diagrams'', ''Color Coding'', ''Video Tutorials'']),
      (''auditory'', [''Podcasts'', ''Discussions'', ''Read Aloud'']),
      (''kinesthetic'', [''Hands-on Practice'', ''Real Projects'', ''Lab Work'']),
      (''reading'', [''Textbooks'', ''Articles'', ''Documentation''])]"

text \<open>
  \<open>d.get(k, d[k0])\<close> evaluates its default \<open>d[k0]\<close> first, which raises \<open>KeyError\<close> when
  \<open>k0\<close> is missing.
\<close>

definition get_or_entry :: "(string \<times> 'v) list \<Rightarrow> string \<Rightarrow> string \<Rightarrow> py_error + 'v" where
  "get_or_entry d k k0 =
     (case map_of d k0 of
        None \<Rightarrow> Inl KeyError
      | Some dflt \<Rightarrow> (case map_of d k of None \<Rightarrow> Inr dflt | Some v \<Rightarrow> Inr v))"

definition select_study_techniques :: "string \<Rightarrow> string \<Rightarrow> int \<Rightarrow> py_error + string list" where
  "select_study_techniques difficulty learning_style day =
     (case get_or_entry study_techniques_table difficulty ''intermediate'' of
        Inl e \<Rightarrow> Inl e
      | Inr base_techniques \<Rightarrow>
         Inr (take 2 base_techniques
              @ take 1 (case map_of style_techniques learning_style of
                          None \<Rightarrow> [] | Some ts \<Rightarrow> ts)))"

definition generate_subtopics :: "string \<Rightarrow> int \<Rightarrow> StudyGoal \<Rightarrow> string list" where
  "generate_subtopics topic day goal =
     (if goal = EXAM_PREP then
        [topic @ '' - Core Concepts'', topic @ '' - Practice Problems'',
         topic @ '' - Common Mistakes'']
      else if goal = DEEP_MASTERY then
        [topic @ '' - Theoretical Foundation'', topic @ '' - Advanced Applications'',
         topic @ '' - Research & Innovation'']
      else if goal = QUICK_REVIEW then
        [topic @ '' - Key Points Review'', topic @ '' - Quick Quiz'']
      else
        [topic @ '' - Introduction'', topic @ '' - Practice'', topic @ '' - Application''])"

definition generate_session_goals :: "string \<Rightarrow> string list \<Rightarrow> StudyGoal \<Rightarrow> py_error + string list" where
  "generate_session_goals topic subtopics goal =
     (case py_getitem subtopics 0 of
        Inl e \<Rightarrow> Inl e
      | Inr first_subtopic \<Rightarrow>
         Inr [''Understand core concepts of '' @ topic,
              ''Complete exercises on '' @ first_subtopic,
              ''Achieve 80%+ on practice quiz''])"

definition learning_resources :: "(string \<times> string list) list" where
  "learning_resources =
     [(''visual'', [''YouTube tutorials'', ''Infographics'', ''Interactive simulations'']),
      (''auditory'', [''Podcasts'', ''Audio lectures'', ''Study group discussions'']),
      (''kinesthetic'', [''Hands-on projects'', ''Lab exercises'', ''Real-world applications'']),
      (''reading'', [''Textbook chapters'', ''Research papers'', ''Online documentation''])]"

definition get_learning_resources :: "string \<Rightarrow> string \<Rightarrow> py_error + string list" where
  "get_learning_resources topic learning_style =
     get_or_entry learning_resources learning_style ''visual''"

definition get_pre_session_prep :: "int \<Rightarrow> string \<Rightarrow> py_error + string" where
  "get_pre_session_prep day topic =
     (let preps =
            [''Review notes from previous '' @ topic @ '' session'',
             ''Set up study environment (minimize distractions)'',
             ''Gather all materials and resources'',
             ''Do a 5-minute breathing exercise to focus'',
             ''Set specific goals for this session'']
      in py_getitem preps (day mod int (length preps)))"

definition get_post_session_review :: "int \<Rightarrow> string \<Rightarrow> py_error + string" where
  "get_post_session_review day topic =
     (let reviews =
            [''Summarize key learnings in your own words'',
             ''Create flashcards for important concepts'',
             ''Teach the concept to someone else (Feynman Technique)'',
             ''Identify 3 things you learned and 1 question you still have'',
             ''Update your study notes with new insights'']
      in py_getitem reviews (day mod int (length reviews)))"

section \<open>Sessions\<close>

text \<open>
  A calendar date is its proleptic Gregorian ordinal, the number that Python's
  \<open>date.toordinal()\<close> gives, from 1 for 0001-01-01 to 3652059 for 9999-12-31. The text
  \<open>strftime("%Y-%m-%d")\<close> that the code stores is a one-to-one rendering of it, so two
  dates are equal, or consecutive, exactly when their ordinals are. Adding a
  \<open>timedelta\<close> raises \<open>OverflowError\<close> when the result leaves that range.
\<close>

definition max_ordinal :: int where
  "max_ordinal = 3652059"

definition add_days :: "int \<Rightarrow> int \<Rightarrow> py_error + int" where
  "add_days d n = (if d + n < 1 \<or> max_ordinal < d + n then Inl OverflowError else Inr (d + n))"

definition bind_error :: "py_error + 'a \<Rightarrow> ('a \<Rightarrow> py_error + 'b) \<Rightarrow> py_error + 'b" where
  "bind_error m f = (case m of Inl e \<Rightarrow> Inl e | Inr x \<Rightarrow> f x)"

record session =
  date :: int
  time_slot :: string
  duration_minutes :: int
  topic :: string
  subtopics :: "string list"
  difficulty :: string
  study_techniques :: "string list"
  breaks :: "break list"
  resources :: "string list"
  goals :: "string list"
  pre_session_prep :: string
  post_session_review :: string
  estimated_focus_level :: string
  completed :: bool
  session_notes :: string
  completed_at :: "string option"

text \<open>
  The body of the \<open>for day in range(total_days)\<close> loop of \<open>_generate_sessions\<close>, up to
  the construction of the \<open>StudySession\<close>, in the order of the source. The duration
  \<open>int(daily_hours * 60)\<close> truncates the floating-point product. \<open>completed\<close>,
  \<open>notes\<close> (the field \<open>session_notes\<close> here) and \<open>completed_at\<close> take the defaults of
  the dataclass.
\<close>

definition compose_session ::
  "string list \<Rightarrow> real dict \<Rightarrow> int \<Rightarrow> real \<Rightarrow> DifficultyLevel \<Rightarrow> TimePreference \<Rightarrow> string
     \<Rightarrow> bool \<Rightarrow> StudyGoal \<Rightarrow> int \<Rightarrow> (string \<rightharpoonup> int) \<Rightarrow> (string \<rightharpoonup> int) \<Rightarrow> nat
     \<Rightarrow> py_error + session" where
  "compose_session topics topic_allocation n_days hours base_difficulty time_preference
       learning_style breaks_enabled study_goal start topic_last_studied topic_study_count d =
     bind_error (add_days start (int d)) (\<lambda>current_date.
     let day_number = int d + 1 in
     bind_error (select_topic_for_day topics topic_allocation day_number
                   topic_last_studied topic_study_count) (\<lambda>chosen.
     bind_error (get_optimal_time_slot time_preference day_number hours) (\<lambda>slot.
     let duration = py_int (float_round (hours * 60));
         pauses = (if breaks_enabled then calculate_breaks duration else []) in
     bind_error (get_session_difficulty base_difficulty day_number n_days) (\<lambda>session_difficulty.
     bind_error (select_study_techniques session_difficulty learning_style day_number)
       (\<lambda>techniques.
     let subs = generate_subtopics chosen day_number study_goal in
     bind_error (generate_session_goals chosen subs study_goal) (\<lambda>session_goals.
     bind_error (get_learning_resources chosen learning_style) (\<lambda>session_resources.
     bind_error (estimate_focus_level slot day_number) (\<lambda>focus_level.
     bind_error (get_pre_session_prep day_number chosen) (\<lambda>pre_prep.
     bind_error (get_post_session_review day_number chosen) (\<lambda>post_review.
     Inr \<lparr>date = current_date, time_slot = slot, duration_minutes = duration,
          topic = chosen, subtopics = subs, difficulty = session_difficulty,
          study_techniques = techniques, breaks = pauses, resources = session_resources,
          goals = session_goals, pre_session_prep = pre_prep,
          post_session_review = post_review, estimated_focus_level = focus_level,
          completed = False, session_notes = [], completed_at = None\<rparr>))))))))))"

text \<open>
  The loop itself, over the days still to come, with the tracking dictionaries and the
  sessions built so far. After a session is appended, \<open>topic_last_studied[topic]\<close> is
  set to the day number and \<open>topic_study_count[topic]\<close> is incremented.
\<close>

fun sessions_loop ::
  "string list \<Rightarrow> real dict \<Rightarrow> int \<Rightarrow> real \<Rightarrow> DifficultyLevel \<Rightarrow> TimePreference \<Rightarrow> string
     \<Rightarrow> bool \<Rightarrow> StudyGoal \<Rightarrow> int \<Rightarrow> nat list \<Rightarrow> (string \<rightharpoonup> int) \<Rightarrow> (string \<rightharpoonup> int)
     \<Rightarrow> session list \<Rightarrow> py_error + session list" where
  "sessions_loop topics topic_allocation n_days hours base_difficulty time_preference
       learning_style breaks_enabled study_goal start [] topic_last_studied
       topic_study_count acc = Inr acc"
| "sessions_loop topics topic_allocation n_days hours base_difficulty time_preference
       learning_style breaks_enabled study_goal start (d # ds) topic_last_studied
       topic_study_count acc =
     bind_error (compose_session topics topic_allocation n_days hours base_difficulty
                   time_preference learning_style breaks_enabled study_goal start
                   topic_last_studied topic_study_count d) (\<lambda>s.
     case topic_study_count (topic s) of
       None \<Rightarrow> Inl KeyError
     | Some n \<Rightarrow>
        sessions_loop topics topic_allocation n_days hours base_difficulty time_preference
          learning_style breaks_enabled study_goal start ds
          (topic_last_studied(topic s \<mapsto> int d + 1))
          (topic_study_count(topic s \<mapsto> n + 1))
          (acc @ [s]))"

text \<open>\<open>_generate_sessions\<close>; \<open>start\<close> is the date of its \<open>datetime.now()\<close>. For
  \<open>total_days \<le> 0\<close> the range is empty.\<close>

definition generate_sessions ::
  "string list \<Rightarrow> real dict \<Rightarrow> int \<Rightarrow> real \<Rightarrow> DifficultyLevel \<Rightarrow> TimePreference \<Rightarrow> string
     \<Rightarrow> bool \<Rightarrow> StudyGoal \<Rightarrow> int \<Rightarrow> py_error + session list" where
  "generate_sessions topics topic_allocation n_days hours base_difficulty time_preference
       learning_style breaks_enabled study_goal start =
     sessions_loop topics topic_allocation n_days hours base_difficulty time_preference
       learning_style breaks_enabled study_goal start [0..<nat n_days]
       (map_of (map (\<lambda>t. (t, - 999)) topics))
       (map_of (map (\<lambda>t. (t, 0)) topics))
       []"

section \<open>Plans\<close>

text \<open>One entry of \<open>milestones\<close>: the dictionary with the keys \<open>day\<close>, \<open>name\<close>,
  \<open>description\<close> and \<open>celebration\<close>.\<close>

record milestone =
  milestone_day :: int
  milestone_name :: string
  description :: string
  celebration :: string

fun milestones_loop :: "int \<Rightarrow> (int \<times> string) list \<Rightarrow> milestone list" where
  "milestones_loop i [] = []"
| "milestones_loop i ((d, nm) # rest) =
     \<lparr>milestone_day = d, milestone_name = nm,
      description = ''Complete '' @ str_of_int ((i + 1) * 25) @ ''% of study plan'',
      celebration = ''Take a day to review and celebrate your progress!''\<rparr>
     # milestones_loop (i + 1) rest"

definition create_milestones :: "string list \<Rightarrow> int \<Rightarrow> StudyGoal \<Rightarrow> milestone list" where
  "create_milestones topics n_days study_goal =
     milestones_loop 0
       [(py_int (real_of_int n_days * (25 / 100)), ''Foundation Complete''),
        (py_int (real_of_int n_days * (5 / 10)), ''Halfway Champion''),
        (py_int (real_of_int n_days * (75 / 100)), ''Advanced Mastery''),
        (n_days, ''Goal Achieved'')]"

text \<open>
  One entry of \<open>weekly_reviews\<close>, the text \<open>Week {week // 7} Review - {date}\<close>, is kept
  as its two parts. Each pass of the loop reads the clock again: \<open>today k\<close> is the date
  read in pass \<open>k\<close>.
\<close>

record weekly_review =
  week_number :: int
  review_date :: int

function weekly_reviews_loop ::
  "(nat \<Rightarrow> int) \<Rightarrow> int \<Rightarrow> int \<Rightarrow> nat \<Rightarrow> weekly_review list \<Rightarrow> py_error + weekly_review list" where
  "weekly_reviews_loop today n_days week k reviews =
     (if week \<le> n_days then
        (case add_days (today k) week of
           Inl e \<Rightarrow> Inl e
         | Inr d \<Rightarrow>
            weekly_reviews_loop today n_days (week + 7) (Suc k)
              (reviews @ [\<lparr>week_number = week div 7, review_date = d\<rparr>]))
      else Inr reviews)"
  by pat_completeness auto
termination
  by (relation "measure (\<lambda>(today, n_days, week, k, reviews). nat (n_days + 1 - week))") auto

definition generate_weekly_reviews :: "(nat \<Rightarrow> int) \<Rightarrow> int \<Rightarrow> py_error + weekly_review list" where
  "generate_weekly_reviews today n_days = weekly_reviews_loop today n_days 7 0 []"

text \<open>
  The recommendations and the tips are fixed texts. Each begins with a pictograph and a
  space in the source; the pictograph, which is outside ASCII, is left out here.
\<close>

definition generate_recommendations ::
  "DifficultyLevel \<Rightarrow> StudyGoal \<Rightarrow> real \<Rightarrow> string \<Rightarrow> string list" where
  "generate_recommendations base_difficulty study_goal hours learning_style =
     (if hours < 2
      then [''Consider increasing study time to 2-3 hours for better retention''] else [])
     @ (if base_difficulty = BEGINNER
        then [''Start with foundational concepts before moving to complex topics''] else [])
     @ (if study_goal = EXAM_PREP
        then [''Focus on practice tests in the last 20% of your study plan''] else [])
     @ [''Your '' @ learning_style @ '' learning style works best with interactive resources'',
        ''Use spaced repetition: review topics after 1, 3, 7, and 14 days'',
        ''Take breaks every 25-30 minutes to maintain peak focus'']"

definition generate_motivational_tips :: "int \<Rightarrow> StudyGoal \<Rightarrow> string list" where
  "generate_motivational_tips n_days study_goal =
     [''Every expert was once a beginner. Keep going!'',
      ''Consistency beats intensity. Show up every day.'',
      ''Focus on progress, not perfection.'',
      ''Your future self will thank you for starting today.'',
      ''Difficult roads often lead to beautiful destinations.'',
      ''Learning is a journey, not a destination.'',
      ''Small daily improvements lead to stunning results.'',
      ''You're investing in the best asset - yourself!'']"

text \<open>
  The clock readings of one call of \<open>generate_plan\<close>: the text of the first
  \<open>datetime.now()\<close> in the format \<open>%Y%m%d_%H%M%S\<close>, the date of the reading in
  \<open>_generate_sessions\<close>, the dates of the readings in \<open>_generate_weekly_reviews\<close>, and the
  ISO text of the last reading.
\<close>

record clock =
  stamp :: string
  start_day :: int
  review_day :: "nat \<Rightarrow> int"
  created :: string

record plan =
  plan_id :: string
  created_at :: string
  subject :: string
  goal :: string
  exam_date :: "string option"
  total_days :: int
  daily_hours :: real
  difficulty_level :: string
  sessions :: "session list"
  milestones :: "milestone list"
  weekly_reviews :: "weekly_review list"
  adaptive_recommendations :: "string list"
  motivational_tips :: "string list"

text \<open>
  \<open>generate_plan\<close>. A \<open>current_knowledge\<close> of \<open>None\<close> becomes the dictionary that maps
  every topic to 0, a \<open>weak_areas\<close> of \<open>None\<close> the empty list. Nothing checks
  \<open>total_days\<close>, \<open>daily_hours\<close> or \<open>topics\<close> before the allocation is computed.
\<close>

definition initial_knowledge :: "string list \<Rightarrow> (string \<rightharpoonup> int) option \<Rightarrow> (string \<rightharpoonup> int)" where
  "initial_knowledge topics current_knowledge =
     (case current_knowledge of None \<Rightarrow> map_of (map (\<lambda>t. (t, 0)) topics) | Some k \<Rightarrow> k)"

definition initial_weak_areas :: "string list option \<Rightarrow> string list" where
  "initial_weak_areas weak_areas = (case weak_areas of None \<Rightarrow> [] | Some w \<Rightarrow> w)"

definition generate_plan ::
  "clock \<Rightarrow> string \<Rightarrow> string list \<Rightarrow> StudyGoal \<Rightarrow> DifficultyLevel \<Rightarrow> int \<Rightarrow> real
     \<Rightarrow> string option \<Rightarrow> TimePreference \<Rightarrow> string \<Rightarrow> (string \<rightharpoonup> int) option
     \<Rightarrow> string list option \<Rightarrow> bool \<Rightarrow> py_error + plan" where
  "generate_plan clk subj topics study_goal base_difficulty n_days hours exam
       time_preference learning_style current_knowledge weak_areas breaks_enabled =
     (let new_id = ''plan_'' @ stamp clk;
          knowledge = initial_knowledge topics current_knowledge;
          weak = initial_weak_areas weak_areas in
      bind_error (calculate_topic_allocation topics n_days hours knowledge weak)
        (\<lambda>topic_allocation.
      bind_error (generate_sessions topics topic_allocation n_days hours base_difficulty
                    time_preference learning_style breaks_enabled study_goal (start_day clk))
        (\<lambda>new_sessions.
      let marks = create_milestones topics n_days study_goal in
      bind_error (generate_weekly_reviews (review_day clk) n_days) (\<lambda>reviews.
      let recommendations =
            generate_recommendations base_difficulty study_goal hours learning_style;
          tips = generate_motivational_tips n_days study_goal in
      Inr \<lparr>plan_id = new_id, created_at = created clk, subject = subj,
           goal = StudyGoal_value study_goal, exam_date = exam, total_days = n_days,
           daily_hours = hours, difficulty_level = DifficultyLevel_value base_difficulty,
           sessions = new_sessions, milestones = marks, weekly_reviews = reviews,
           adaptive_recommendations = recommendations, motivational_tips = tips\<rparr>))))"

text \<open>
  A clock is in range for a plan of \<open>n_days\<close> days when every date the plan computes from
  it is a date Python can represent.
\<close>

definition clock_in_range :: "clock \<Rightarrow> int \<Rightarrow> bool" where
  "clock_in_range clk n_days \<longleftrightarrow>
     1 \<le> start_day clk \<and> start_day clk + n_days - 1 \<le> max_ordinal
     \<and> (\<forall>k. 1 \<le> review_day clk k \<and> review_day clk k + n_days \<le> max_ordinal)"

text \<open>The clock of the examples: every reading on 2025-01-01, ordinal 739252.\<close>

definition example_clock :: clock where
  "example_clock =
     \<lparr>stamp = ''20250101_120000'', start_day = 739252, review_day = (\<lambda>k. 739252),
      created = ''2025-01-01T12:00:00''\<rparr>"

text \<open>
  \<open>round(x)\<close> as the specification uses it for the session duration: the nearest
  integer, a tie going to the even neighbour. The source does not call it there; it
  truncates with \<open>int\<close>.
\<close>

definition py_round :: "real \<Rightarrow> int" where
  "py_round x = round_half_even x"

section \<open>Plan store\<close>

text \<open>
  The JSON document of \<open>state.json\<close>: its key \<open>study_plans\<close> holds the list of stored
  plans, or is absent. Stored plans and sessions are the records that \<open>save_plan\<close>
  writes with \<open>asdict\<close>, so every key the update reads is present. The file is \<open>None\<close>
  when it cannot be opened or parsed.
\<close>

record document =
  study_plans :: "plan list option"

text \<open>
  The inner loop of \<open>update_session_progress\<close>: the first session with the given date is
  updated, then the loop breaks. \<open>stamp_now\<close> is \<open>datetime.now().isoformat()\<close>.
\<close>

fun update_sessions :: "int \<Rightarrow> bool \<Rightarrow> string \<Rightarrow> string \<Rightarrow> session list \<Rightarrow> session list" where
  "update_sessions session_date done_flag note stamp_now [] = []"
| "update_sessions session_date done_flag note stamp_now (s # rest) =
     (if date s = session_date then
        s\<lparr>completed := done_flag, session_notes := note, completed_at := Some stamp_now\<rparr> # rest
      else s # update_sessions session_date done_flag note stamp_now rest)"

text \<open>The outer loop: the first plan with the given \<open>plan_id\<close> is visited, then the loop
  breaks.\<close>

fun update_plans ::
  "string \<Rightarrow> int \<Rightarrow> bool \<Rightarrow> string \<Rightarrow> string \<Rightarrow> plan list \<Rightarrow> plan list" where
  "update_plans pid session_date done_flag note stamp_now [] = []"
| "update_plans pid session_date done_flag note stamp_now (p # rest) =
     (if plan_id p = pid then
        p\<lparr>sessions := update_sessions session_date done_flag note stamp_now (sessions p)\<rparr>
        # rest
      else p # update_plans pid session_date done_flag note stamp_now rest)"

text \<open>
  \<open>update_session_progress\<close> returns the new content of the file and its Boolean result.
  An exception while reading is caught: the file is left as it is and the result is
  \<open>False\<close>. Otherwise the document is written back, and the result is \<open>True\<close> whether or
  not a session was found. \<open>data.get("study_plans", [])\<close> is the empty list for a document
  without the key, which is then written back without it.
\<close>

definition update_session_progress ::
  "document option \<Rightarrow> string \<Rightarrow> int \<Rightarrow> bool \<Rightarrow> string \<Rightarrow> string \<Rightarrow> document option \<times> bool" where
  "update_session_progress file pid session_date done_flag note stamp_now =
     (case file of
        None \<Rightarrow> (None, False)
      | Some data \<Rightarrow>
         (case study_plans data of
            None \<Rightarrow> (Some data, True)
          | Some plans \<Rightarrow>
             (Some (data\<lparr>study_plans :=
                      Some (update_plans pid session_date done_flag note stamp_now plans)\<rparr>),
              True)))"

text \<open>A stored plan of one session, for the examples.\<close>

definition example_session :: session where
  "example_session =
     \<lparr>date = 739252, time_slot = ''14:00 - 15:00'', duration_minutes = 60, topic = ''A'',
      subtopics = [''A - Core Concepts'', ''A - Practice Problems'', ''A - Common Mistakes''],
      difficulty = ''advanced'',
      study_techniques = [''Deep Work Sessions'', ''Research Papers'', ''Diagrams''],
      breaks = calculate_breaks 60,
      resources = [''YouTube tutorials'', ''Infographics'', ''Interactive simulations''],
      goals = [''Understand core concepts of A'', ''Complete exercises on A - Core Concepts'',
               ''Achieve 80%+ on practice quiz''],
      pre_session_prep = ''Set up study environment (minimize distractions)'',
      post_session_review = ''Create flashcards for important concepts'',
      estimated_focus_level = ''Medium'', completed = False, session_notes = [],
      completed_at = None\<rparr>"

definition example_stored_plan :: plan where
  "example_stored_plan =
     \<lparr>plan_id = ''plan_20250101_120000'', created_at = ''2025-01-01T12:00:00'',
      subject = ''S'', goal = ''exam_prep'', exam_date = None, total_days = 1,
      daily_hours = 1, difficulty_level = ''intermediate'', sessions = [example_session],
      milestones = create_milestones [''A''] 1 EXAM_PREP, weekly_reviews = [],
      adaptive_recommendations =
        generate_recommendations INTERMEDIATE EXAM_PREP 1 ''visual'',
      motivational_tips = generate_motivational_tips 1 EXAM_PREP\<rparr>"

section \<open>Properties\<close>

subsection \<open>Rounding to a double\<close>

text \<open>
  \<open>float_round x\<close> is a multiple of the spacing of the doubles around \<open>x\<close> and lies
  within half that spacing of \<open>x\<close>.
\<close>

lemma bit_length_pos: "0 < n \<Longrightarrow> bit_length n = Suc (bit_length (n div 2))"
  by (simp add: bit_length.simps [of n])

lemma bit_length_zero: "bit_length 0 = 0"
  by (simp add: bit_length.simps [of 0])

lemma bit_length_bounds: "0 < n \<Longrightarrow> 2 ^ (bit_length n - 1) \<le> n \<and> n < 2 ^ bit_length n"
proof (induction n rule: less_induct)
  case (less n)
  show ?case
  proof (cases "n div 2 = 0")
    case True
    with less.prems have n1: "n = 1" by (cases n) (auto simp: div_eq_0_iff)
    have "bit_length (Suc 0) = Suc (bit_length (Suc 0 div 2))"
      by (rule bit_length_pos) simp
    then have "bit_length (Suc 0) = Suc 0"
      by (simp add: bit_length_zero)
    with n1 show ?thesis by simp
  next
    case False
    then have pos: "0 < n div 2" by simp
    have "n div 2 < n" using less.prems by simp
    from less.IH [OF this pos]
    have ih: "2 ^ (bit_length (n div 2) - 1) \<le> n div 2" "n div 2 < 2 ^ bit_length (n div 2)"
      by simp_all
    from bit_length_pos [OF pos] obtain k where k: "bit_length (n div 2) = Suc k" by simp
    from bit_length_pos [OF less.prems] k have bl: "bit_length n = Suc (Suc k)" by simp
    from ih k have "2 ^ k \<le> n div 2" "n div 2 < 2 ^ Suc k" by simp_all
    then have "2 * 2 ^ k \<le> n" "n < 2 * 2 ^ Suc k" by linarith+
    with bl show ?thesis by simp
  qed
qed


lemma two_to_pos: "0 < two_to k"
  by (simp add: two_to_def)

lemma binade_bounds:
  assumes "0 < a"
  shows "two_to (binade a - 1) \<le> a" and "a < two_to (binade a)"
proof -
  have "two_to (binade a - 1) \<le> a \<and> a < two_to (binade a)"
  proof (cases "1 \<le> a")
    case True
    define n where "n = nat \<lfloor>a\<rfloor>"
    from True have n: "0 < n" "real n \<le> a" "a < real n + 1"
      by (simp_all add: n_def)
    from bit_length_pos [OF n(1)] obtain k where k: "bit_length n = Suc k" by simp
    from bit_length_bounds [OF n(1)] k have "2 ^ k \<le> n" "n < 2 ^ Suc k" by simp_all
    then have "real (2 ^ k) \<le> real n" "real (Suc n) \<le> real (2 ^ Suc k)"
      by (simp_all only: of_nat_le_iff Suc_le_eq)
    then have "(2::real) ^ k \<le> real n" "real n + 1 \<le> 2 ^ Suc k"
      by simp_all
    with n(2,3) have "(2::real) ^ k \<le> a" "a < 2 ^ Suc k" by linarith+
    moreover from True k have "binade a = int (Suc k)" by (simp add: binade_def n_def)
    moreover have "nat (1 + int k) = Suc k" by simp
    ultimately show ?thesis by (simp add: two_to_def)
  next
    case False
    define y where "y = 1 / a"
    from False assms have y1: "1 < y" by (simp add: y_def)
    define n where "n = nat (\<lceil>y\<rceil> - 1)"
    from y1 have "2 \<le> \<lceil>y\<rceil>" by linarith
    then have n: "0 < n" "real n < y" "y \<le> real n + 1"
      by (simp_all add: n_def) linarith+
    from bit_length_pos [OF n(1)] obtain j where j: "bit_length n = Suc j" by simp
    from bit_length_bounds [OF n(1)] j have "2 ^ j \<le> n" "n < 2 ^ Suc j" by simp_all
    then have "real (2 ^ j) \<le> real n" "real (Suc n) \<le> real (2 ^ Suc j)"
      by (simp_all only: of_nat_le_iff Suc_le_eq)
    then have "(2::real) ^ j \<le> real n" "real n + 1 \<le> 2 ^ Suc j"
      by simp_all
    with n(2,3) have yb: "(2::real) ^ j < y" "y \<le> 2 ^ Suc j" by linarith+
    from yb(1) assms have up: "a < 1 / 2 ^ j"
      by (simp add: y_def field_simps)
    from yb(2) assms have low: "1 / 2 ^ Suc j \<le> a"
      by (simp add: y_def field_simps)
    from False j have b: "binade a = - int j" by (simp add: binade_def n_def y_def)
    show ?thesis
    proof (cases j)
      case 0
      with up low b show ?thesis by (simp add: two_to_def)
    next
      case (Suc i)
      with up low b show ?thesis by (simp add: two_to_def nat_add_distrib)
    qed
  qed
  then show "two_to (binade a - 1) \<le> a" and "a < two_to (binade a)" by simp_all
qed

lemma round_half_even_near: "\<bar>real_of_int (round_half_even z) - z\<bar> \<le> 1 / 2"
  by (simp add: round_half_even_def Let_def)

lemma float_round_nearest:
  assumes "x \<noteq> 0"
  defines "ulp \<equiv> two_to (max (binade \<bar>x\<bar>) (- 1021) - 53)"
  shows "\<exists>m. float_round x = real_of_int m * ulp" and "\<bar>float_round x - x\<bar> \<le> ulp / 2"
proof -
  define m where "m = round_half_even (\<bar>x\<bar> / ulp)"
  have pos: "0 < ulp" by (simp add: ulp_def two_to_pos)
  have fr: "float_round x = (if x < 0 then - (real_of_int m * ulp) else real_of_int m * ulp)"
    using assms(1) by (simp add: float_round_def Let_def m_def ulp_def)
  then show "\<exists>m. float_round x = real_of_int m * ulp"
    by (cases "x < 0") (auto intro: exI [of _ "- m"] exI [of _ m])
  from round_half_even_near [of "\<bar>x\<bar> / ulp"]
  have "\<bar>real_of_int m - \<bar>x\<bar> / ulp\<bar> * ulp \<le> 1 / 2 * ulp"
    using pos unfolding m_def by (intro mult_right_mono) simp_all
  moreover have "\<bar>real_of_int m - \<bar>x\<bar> / ulp\<bar> * ulp = \<bar>real_of_int m * ulp - \<bar>x\<bar>\<bar>"
  proof -
    have "(real_of_int m - \<bar>x\<bar> / ulp) * ulp = real_of_int m * ulp - \<bar>x\<bar>"
      using pos by (simp add: left_diff_distrib)
    then have "\<bar>real_of_int m * ulp - \<bar>x\<bar>\<bar> = \<bar>real_of_int m - \<bar>x\<bar> / ulp\<bar> * \<bar>ulp\<bar>"
      by (simp only: abs_mult [symmetric])
    with pos show ?thesis by simp
  qed
  ultimately have near: "\<bar>real_of_int m * ulp - \<bar>x\<bar>\<bar> \<le> ulp / 2" by simp
  show "\<bar>float_round x - x\<bar> \<le> ulp / 2"
  proof (cases "x < 0")
    case True
    with fr have "float_round x - x = - (real_of_int m * ulp - \<bar>x\<bar>)" by simp
    then have "\<bar>float_round x - x\<bar> = \<bar>real_of_int m * ulp - \<bar>x\<bar>\<bar>"
      by (simp only: abs_minus_cancel)
    with near show ?thesis by simp
  next
    case False
    with fr have "float_round x - x = real_of_int m * ulp - \<bar>x\<bar>" by simp
    with near show ?thesis by simp
  qed
qed

text \<open>
  The double nearest to 0.3 is \<open>5404319552844595 / 2 ^ 54\<close>, a little below 0.3. Its
  exact product with 60 is below 18, the floating-point product is 18. The double
  nearest to 2.05 gives 122.
\<close>

lemma float_round_examples:
  "py_int (float_round (5404319552844595 / 2 ^ 54 * 60)) = 18"
  "py_int (5404319552844595 / 2 ^ 54 * 60) = 17"
  "py_int (float_round (2308094809027379 / 2 ^ 50 * 60)) = 122"
  "float_round (21 / 16 * 60) = 315 / 4"
  by code_simp+

subsection \<open>Pomodoro breaks\<close>

text \<open>
  C3 (as the code has it). For a duration of 100 minutes \<open>_calculate_breaks\<close> returns
  exactly three short breaks of 5 minutes. Their \<open>after_minutes\<close> are 25, 55 and 85:
  \<open>after_minutes\<close> is the elapsed time, which includes the breaks already taken. The
  fourth work block is cut to 10 minutes, reaches 100 exactly and is followed by no
  break. A duration of exactly 25 minutes gives no break at all.
\<close>

theorem calculate_breaks_100_and_25:
  "calculate_breaks 100 =
     [\<lparr>after_minutes = 25, break.duration_minutes = 5, break_type = ''short''\<rparr>,
      \<lparr>after_minutes = 55, break.duration_minutes = 5, break_type = ''short''\<rparr>,
      \<lparr>after_minutes = 85, break.duration_minutes = 5, break_type = ''short''\<rparr>]
   \<and> calculate_breaks 25 = []"
  by (simp add: calculate_breaks_def)

text \<open>
  C3 as the specification words it, with breaks after 25, 50 and 75 minutes, does not
  hold: the second and third break come after 55 and 85 minutes.
\<close>

theorem calculate_breaks_100_not_25_50_75:
  "map after_minutes (calculate_breaks 100) \<noteq> [25, 50, 75]"
  by (simp add: calculate_breaks_def)

subsection \<open>Difficulty progression\<close>

lemma py_index_difficulties:
  "py_index difficulties (DifficultyLevel_value b) =
     Inr (case b of BEGINNER \<Rightarrow> 0 | INTERMEDIATE \<Rightarrow> 1 | ADVANCED \<Rightarrow> 2 | EXPERT \<Rightarrow> 3)"
  by (cases b) (simp_all add: difficulties_def)

lemma get_session_difficulty_top:
  assumes "n \<noteq> 0" and "6 / 10 \<le> real_of_int d / real_of_int n"
  shows "get_session_difficulty b d n =
    py_getitem difficulties
      (min (int (length difficulties) - 1)
         (int (case b of BEGINNER \<Rightarrow> 0 | INTERMEDIATE \<Rightarrow> 1 | ADVANCED \<Rightarrow> 2 | EXPERT \<Rightarrow> 3) + 1))"
proof -
  define r where "r = real_of_int d / real_of_int n"
  have "\<not> r < 3 / 10" and "\<not> r < 6 / 10"
    using assms(2) unfolding r_def by linarith+
  then show ?thesis
    unfolding get_session_difficulty_def r_def [symmetric] Let_def
    using assms(1) by (simp add: py_index_difficulties)
qed

text \<open>
  C5. With \<open>total_days = 30\<close> and the base difficulty intermediate, day 5 is
  \<open>beginner\<close>, day 15 is \<open>intermediate\<close>, and days 25 and 29 are both \<open>advanced\<close>. The
  two top bands agree for every base difficulty: from a progress ratio of 0.6 on, the
  result is the entry at \<open>min(3, base_idx + 1)\<close>, whatever side of 0.85 the ratio is on.
\<close>

theorem get_session_difficulty_30_intermediate:
  "get_session_difficulty INTERMEDIATE 5 30 = Inr ''beginner''
   \<and> get_session_difficulty INTERMEDIATE 15 30 = Inr ''intermediate''
   \<and> get_session_difficulty INTERMEDIATE 25 30 = Inr ''advanced''
   \<and> get_session_difficulty INTERMEDIATE 29 30 = Inr ''advanced''
   \<and> (\<forall>b d d' n. n \<noteq> 0 \<and> 6 / 10 \<le> real_of_int d / real_of_int n
          \<and> 6 / 10 \<le> real_of_int d' / real_of_int n
        \<longrightarrow> get_session_difficulty b d n = get_session_difficulty b d' n)"
proof -
  have idx: "py_index difficulties ''intermediate'' = Inr 1"
    by (simp add: difficulties_def)
  have d5: "get_session_difficulty INTERMEDIATE 5 30 = Inr ''beginner''"
    by (simp add: get_session_difficulty_def idx py_getitem_def difficulties_def)
  have d15: "get_session_difficulty INTERMEDIATE 15 30 = Inr ''intermediate''"
    by (simp add: get_session_difficulty_def idx py_getitem_def difficulties_def)
  have d25: "get_session_difficulty INTERMEDIATE 25 30 = Inr ''advanced''"
    by (simp add: get_session_difficulty_def idx py_getitem_def difficulties_def)
  have d29: "get_session_difficulty INTERMEDIATE 29 30 = Inr ''advanced''"
    by (simp add: get_session_difficulty_def idx py_getitem_def difficulties_def)
  have top: "get_session_difficulty b d n = get_session_difficulty b d' n"
    if "n \<noteq> 0" "6 / 10 \<le> real_of_int d / real_of_int n"
       "6 / 10 \<le> real_of_int d' / real_of_int n" for b d d' n
    using that by (simp add: get_session_difficulty_top)
  from d5 d15 d25 d29 top show ?thesis by blast
qed

theorem get_session_difficulty_30_intermediate_witness:
  "(30::int) \<noteq> 0 \<and> (6::real) / 10 \<le> real_of_int 25 / real_of_int 30
   \<and> (6::real) / 10 \<le> real_of_int 29 / real_of_int 30
   \<and> get_session_difficulty EXPERT 25 30 = get_session_difficulty EXPERT 29 30
   \<and> get_session_difficulty EXPERT 29 30 = Inr ''expert''"
proof -
  have h: "(30::int) \<noteq> 0 \<and> (6::real) / 10 \<le> real_of_int 25 / real_of_int 30
      \<and> (6::real) / 10 \<le> real_of_int 29 / real_of_int 30"
    by simp
  have e: "get_session_difficulty EXPERT 29 30 = Inr ''expert''"
    by (simp add: get_session_difficulty_def py_index_difficulties py_getitem_def
        difficulties_def)
  from get_session_difficulty_30_intermediate h
  have "get_session_difficulty EXPERT 25 30 = get_session_difficulty EXPERT 29 30"
    by blast
  with h e show ?thesis by simp
qed

subsection \<open>Topic allocation\<close>

lemma update_fresh: "k \<notin> fst ` set al \<Longrightarrow> AList.update k v al = al @ [(k, v)]"
  by (induction al) auto

lemma weights_loop_keys:
  "fst ` set (weights_loop ck wa ts acc) = set ts \<union> fst ` set acc"
  by (induction ts arbitrary: acc) (auto simp: dom_update)

lemma weights_loop_distinct:
  "distinct (map fst acc) \<Longrightarrow> distinct (map fst (weights_loop ck wa ts acc))"
  by (induction ts arbitrary: acc) (auto simp: distinct_update)

lemma weights_loop_map_of:
  "map_of (weights_loop ck wa ts acc) t =
     (if t \<in> set ts then Some (topic_weight ck wa t) else map_of acc t)"
  by (induction ts arbitrary: acc) (auto simp: update_conv')

lemma allocation_loop_fresh:
  assumes "tw \<noteq> 0" and "distinct (map fst items)"
    and "fst ` set items \<inter> fst ` set acc = {}"
  shows "allocation_loop tw th items acc =
    Inr (acc @ map (\<lambda>(t, w). (t, w / tw * th)) items)"
  using assms
proof (induction items arbitrary: acc)
  case Nil
  then show ?case by simp
next
  case (Cons item items)
  obtain t w where item: "item = (t, w)" by (cases item)
  from Cons.prems item have fresh: "t \<notin> fst ` set acc" by auto
  from Cons.prems item
  have "fst ` set items \<inter> fst ` set (acc @ [(t, w / tw * th)]) = {}"
    by auto
  with Cons.IH [of "acc @ [(t, w / tw * th)]"] Cons.prems item fresh
  show ?case by (simp add: update_fresh)
qed

lemma sum_list_scaled:
  "sum_list (map snd (map (\<lambda>(t, w). (t, w / tw * th)) items)) =
     sum_list (map snd items) / tw * (th::real)"
  by (induction items) (auto simp: add_divide_distrib distrib_right)

lemma calculate_topic_allocation_result:
  assumes "total_weight ck wa topics \<noteq> 0"
  shows "calculate_topic_allocation topics n_days hours ck wa =
    Inr (map (\<lambda>(t, w). (t, w / total_weight ck wa topics * (real_of_int n_days * hours)))
          (weights_loop ck wa topics []))"
proof -
  have "distinct (map fst (weights_loop ck wa topics []))"
    by (rule weights_loop_distinct) simp
  from allocation_loop_fresh [OF assms this, of "[]"] show ?thesis
    by (simp add: calculate_topic_allocation_def Let_def)
qed

text \<open>
  C2. When the weights do not sum to zero (in particular when the sum is positive),
  \<open>_calculate_topic_allocation\<close> returns an allocation with exactly one entry for each
  input topic; over exact arithmetic its values sum to \<open>total_days * daily_hours\<close>, and
  the entry of each topic is its weight times the same factor
  \<open>total_days * daily_hours / total_weight\<close>. The weight is
  \<open>(100 - knowledge) * weak_boost * spaced_boost\<close> with \<open>weak_boost\<close> 1.5 for a weak area
  and 1.0 otherwise, and \<open>spaced_boost\<close> 1.3 for a knowledge in [30,70] and 1.0 otherwise.
\<close>

theorem calculate_topic_allocation_proportional:
  assumes "total_weight current_knowledge weak_areas topics \<noteq> 0"
  shows "\<exists>allocation.
      calculate_topic_allocation topics n_days hours current_knowledge weak_areas
        = Inr allocation
    \<and> distinct (map fst allocation)
    \<and> set (map fst allocation) = set topics
    \<and> sum_list (map snd allocation) = real_of_int n_days * hours
    \<and> (\<forall>topic \<in> set topics.
          map_of allocation topic =
            Some (topic_weight current_knowledge weak_areas topic
                  * (real_of_int n_days * hours
                     / total_weight current_knowledge weak_areas topics)))
    \<and> (\<forall>topic.
          topic_weight current_knowledge weak_areas topic =
            real_of_int (100 - (case current_knowledge topic of None \<Rightarrow> 0 | Some k \<Rightarrow> k))
            * (if topic \<in> set weak_areas then 1.5 else 1.0)
            * (if (case current_knowledge topic of None \<Rightarrow> 0 | Some k \<Rightarrow> k) \<in> {30..70}
               then 1.3 else 1.0))"
proof -
  define weights where "weights = weights_loop current_knowledge weak_areas topics []"
  define tw where "tw = total_weight current_knowledge weak_areas topics"
  define th where "th = real_of_int n_days * hours"
  define allocation where "allocation = map (\<lambda>(t, w). (t, w / tw * th)) weights"
  have tw: "tw \<noteq> 0" and tw_sum: "tw = sum_list (map snd weights)"
    using assms by (simp_all add: tw_def weights_def total_weight_def)
  have dist: "distinct (map fst weights)"
    unfolding weights_def by (rule weights_loop_distinct) simp
  have keys: "fst ` set weights = set topics"
    by (simp add: weights_def weights_loop_keys)
  have run: "calculate_topic_allocation topics n_days hours current_knowledge weak_areas
      = Inr allocation"
    using calculate_topic_allocation_result [OF assms]
    by (simp add: allocation_def weights_def tw_def th_def)
  have fsts: "map fst allocation = map fst weights"
    by (simp add: allocation_def case_prod_unfold comp_def)
  have "sum_list (map snd allocation) = sum_list (map snd weights) / tw * th"
    unfolding allocation_def by (rule sum_list_scaled)
  with tw have total: "sum_list (map snd allocation) = th"
    by (simp add: tw_sum)
  have entry: "map_of allocation t = Some (topic_weight current_knowledge weak_areas t * (th / tw))"
    if "t \<in> set topics" for t
  proof -
    from that have "map_of weights t = Some (topic_weight current_knowledge weak_areas t)"
      by (simp add: weights_def weights_loop_map_of)
    then have "(t, topic_weight current_knowledge weak_areas t) \<in> set weights"
      by (rule map_of_SomeD)
    then have "(t, topic_weight current_knowledge weak_areas t / tw * th) \<in> set allocation"
      by (force simp: allocation_def)
    with dist fsts have "map_of allocation t
        = Some (topic_weight current_knowledge weak_areas t / tw * th)"
      by (simp add: map_of_eq_Some_iff)
    then show ?thesis by simp
  qed
  have weight: "topic_weight current_knowledge weak_areas t =
      real_of_int (100 - (case current_knowledge t of None \<Rightarrow> 0 | Some k \<Rightarrow> k))
      * (if t \<in> set weak_areas then 1.5 else 1.0)
      * (if (case current_knowledge t of None \<Rightarrow> 0 | Some k \<Rightarrow> k) \<in> {30..70}
         then 1.3 else 1.0)" for t
    by (simp add: topic_weight_def Let_def)
  from run dist fsts keys total entry weight show ?thesis
    unfolding th_def tw_def by (intro exI [of _ allocation]) auto
qed

theorem calculate_topic_allocation_proportional_witness:
  "total_weight [''A'' \<mapsto> 40, ''B'' \<mapsto> 0] [''B''] [''A'', ''B''] \<noteq> 0
   \<and> (\<exists>allocation.
        calculate_topic_allocation [''A'', ''B''] 2 (3 / 2) [''A'' \<mapsto> 40, ''B'' \<mapsto> 0] [''B'']
          = Inr allocation
      \<and> sum_list (map snd allocation) = 3
      \<and> map_of allocation ''A'' = Some (78 * (3 / 228))
      \<and> map_of allocation ''B'' = Some (150 * (3 / 228)))"
proof -
  have w: "total_weight [''A'' \<mapsto> 40, ''B'' \<mapsto> 0] [''B''] [''A'', ''B''] = 228"
    by (simp add: total_weight_def topic_weight_def)
  have a: "topic_weight [''A'' \<mapsto> 40, ''B'' \<mapsto> 0] [''B''] ''A'' = 78"
    and b: "topic_weight [''A'' \<mapsto> 40, ''B'' \<mapsto> 0] [''B''] ''B'' = 150"
    by (simp_all add: topic_weight_def)
  from w have nz: "total_weight [''A'' \<mapsto> 40, ''B'' \<mapsto> 0] [''B''] [''A'', ''B''] \<noteq> 0"
    by simp
  from calculate_topic_allocation_proportional [OF nz, of 2 "3 / 2"]
  obtain allocation where
    "calculate_topic_allocation [''A'', ''B''] 2 (3 / 2) [''A'' \<mapsto> 40, ''B'' \<mapsto> 0] [''B'']
       = Inr allocation"
    "sum_list (map snd allocation) = 3"
    "map_of allocation ''A'' = Some (78 * (3 / 228))"
    "map_of allocation ''B'' = Some (150 * (3 / 228))"
    by (auto simp: w a b)
  with nz show ?thesis by blast
qed

text \<open>
  C7. The division by \<open>total_weight\<close> is not guarded. With the single topic \<open>A\<close> at
  knowledge 100, which the docstring of \<open>generate_plan\<close> admits (knowledge levels are
  0 to 100), the weights sum to zero and the allocation raises \<open>ZeroDivisionError\<close>.
\<close>

theorem calculate_topic_allocation_zero_weight:
  "calculate_topic_allocation [''A''] 1 1 [''A'' \<mapsto> 100] [] = Inl ZeroDivisionError"
  by (simp add: calculate_topic_allocation_def total_weight_def topic_weight_def)

subsection \<open>Topic selection\<close>

lemma spaced_int_bound:
  "ds - 2 * min_list (map (\<lambda>interval. \<bar>ds - interval\<bar>) optimal_intervals) \<le> (30::int)"
proof -
  define m where "m = min_list (map (\<lambda>interval. \<bar>ds - interval\<bar>) optimal_intervals)"
  have nonneg: "0 \<le> m"
    by (simp add: m_def optimal_intervals_def)
  have far: "m = ds - 30" if "30 < ds"
    using that by (simp add: m_def optimal_intervals_def)
  have "ds - 2 * m \<le> 30"
  proof (cases "ds \<le> 30")
    case True
    with nonneg show ?thesis by arith
  next
    case False
    with far have "m = ds - 30" by simp
    with False show ?thesis by arith
  qed
  then show ?thesis by (simp only: m_def)
qed

lemma update_set_subset: "set (AList.update k v al) \<subseteq> insert (k, v) (set al)"
  by (induction al) auto

lemma scores_loop_inv:
  assumes "scores_loop a d ls sc ts acc = Inr scores"
    and "\<forall>(k, v) \<in> set acc. topic_score a d ls sc k = Inr v"
  shows "(\<forall>(k, v) \<in> set scores. topic_score a d ls sc k = Inr v)
    \<and> fst ` set scores = set ts \<union> fst ` set acc"
  using assms
proof (induction ts arbitrary: acc)
  case Nil
  then show ?case by simp
next
  case (Cons t ts)
  from Cons.prems(1) obtain s where s: "topic_score a d ls sc t = Inr s"
    and run: "scores_loop a d ls sc ts (AList.update t s acc) = Inr scores"
    by (auto split: sum.splits)
  have "\<forall>(k, v) \<in> set (AList.update t s acc). topic_score a d ls sc k = Inr v"
    using Cons.prems(2) s update_set_subset [of t s acc] by auto
  from Cons.IH [OF run this] show ?case by (auto simp: dom_update)
qed

lemma scores_loop_total:
  assumes "\<forall>t \<in> set ts. \<exists>s. topic_score a d ls sc t = Inr s"
  shows "\<exists>scores. scores_loop a d ls sc ts acc = Inr scores"
  using assms by (induction ts arbitrary: acc) (auto split: sum.splits)

lemma max_key_from_is_max:
  "\<exists>v. (max_key_from best rest, v) \<in> set (best # rest)
       \<and> (\<forall>p \<in> set (best # rest). snd p \<le> v)"
proof (induction rest arbitrary: best)
  case Nil
  have "(max_key_from best [], snd best) \<in> set [best]" by simp
  moreover have "\<forall>p \<in> set [best]. snd p \<le> snd best" by simp
  ultimately show ?case by (rule_tac x = "snd best" in exI) (rule conjI)
next
  case (Cons item rest)
  define b where "b = (if snd best < snd item then item else best)"
  from Cons.IH [of b] obtain v where
    mem: "(max_key_from b rest, v) \<in> set (b # rest)"
    and ub: "\<forall>p \<in> set (b # rest). snd p \<le> v"
    by blast
  have step: "max_key_from best (item # rest) = max_key_from b rest"
    by (simp add: b_def)
  have sub: "set (b # rest) \<subseteq> set (best # item # rest)"
    by (auto simp: b_def)
  from ub have "snd b \<le> v" by simp
  moreover have "snd best \<le> snd b" "snd item \<le> snd b"
    by (simp_all add: b_def)
  ultimately have "snd best \<le> v" "snd item \<le> v" by linarith+
  with ub have ub': "\<forall>p \<in> set (best # item # rest). snd p \<le> v" by simp
  from mem sub have "(max_key_from b rest, v) \<in> set (best # item # rest)" by blast
  with ub' step show ?case by metis
qed

lemma select_topic_for_day_in_topics:
  assumes "select_topic_for_day topics a d ls sc = Inr k"
  shows "k \<in> set topics"
proof -
  from assms obtain scores where run: "scores_loop a d ls sc topics [] = Inr scores"
    and mx: "py_max_key scores = Inr k"
    by (auto simp: select_topic_for_day_def split: sum.splits)
  from scores_loop_inv [OF run] have keys: "fst ` set scores = set topics" by simp
  from mx obtain item rest where sc: "scores = item # rest" and k: "k = max_key_from item rest"
    by (auto simp: py_max_key_def split: list.splits)
  from max_key_from_is_max [of item rest] k sc obtain v where "(k, v) \<in> set scores"
    by auto
  then have "k \<in> fst ` set scores" by force
  with keys show ?thesis by simp
qed

lemma select_topic_for_day_total:
  assumes "topics \<noteq> []" and "\<forall>t \<in> set topics. \<exists>s. topic_score a d ls sc t = Inr s"
  shows "\<exists>k. select_topic_for_day topics a d ls sc = Inr k"
proof -
  from scores_loop_total [OF assms(2)] obtain scores
    where run: "scores_loop a d ls sc topics [] = Inr scores" by blast
  from scores_loop_inv [OF run] have "fst ` set scores = set topics" by simp
  with assms(1) have "scores \<noteq> []" by auto
  with run show ?thesis
    by (auto simp: select_topic_for_day_def py_max_key_def split: list.splits)
qed

lemma select_topic_for_day_dominant:
  assumes u: "u \<in> set topics"
    and su: "topic_score a d ls sc u = Inr s"
    and others: "\<And>t. t \<in> set topics \<Longrightarrow> t \<noteq> u \<Longrightarrow>
                   \<exists>s'. topic_score a d ls sc t = Inr s' \<and> s' < s"
  shows "select_topic_for_day topics a d ls sc = Inr u"
proof -
  have "\<forall>t \<in> set topics. \<exists>s. topic_score a d ls sc t = Inr s"
  proof
    fix t assume "t \<in> set topics"
    then show "\<exists>s. topic_score a d ls sc t = Inr s"
      using su others [of t] by (cases "t = u") blast+
  qed
  from scores_loop_total [OF this] obtain scores
    where run: "scores_loop a d ls sc topics [] = Inr scores" by blast
  from scores_loop_inv [OF run]
  have vals: "\<And>k v. (k, v) \<in> set scores \<Longrightarrow> topic_score a d ls sc k = Inr v"
    and keys: "fst ` set scores = set topics" by auto
  from u keys have "u \<in> fst ` set scores" by simp
  then obtain x where x: "(u, x) \<in> set scores" by (auto simp: image_iff)
  from vals [OF x] su have xs: "x = s" by simp
  from x obtain item rest where sc: "scores = item # rest" by (cases scores) auto
  define k where "k = max_key_from item rest"
  from max_key_from_is_max [of item rest] obtain v where
    mem: "(k, v) \<in> set scores" and ub: "\<forall>p \<in> set scores. snd p \<le> v"
    unfolding sc k_def by blast
  from ub x have "snd (u, x) \<le> v" by (rule bspec)
  with xs have le: "s \<le> v" by simp
  from vals [OF mem] have tv: "topic_score a d ls sc k = Inr v" .
  from mem have "fst (k, v) \<in> fst ` set scores" by (rule imageI)
  with keys have kt: "k \<in> set topics" by simp
  have "k = u"
  proof (rule ccontr)
    assume "k \<noteq> u"
    from others [OF kt this] tv have "v < s" by simp
    with le show False by simp
  qed
  with run sc show ?thesis
    by (simp add: select_topic_for_day_def py_max_key_def k_def)
qed

lemma studied_arith:
  "(dl::real) - 2 * m \<le> 30 \<Longrightarrow> 1 \<le> c \<Longrightarrow>
   (x - c * (3 / 2)) * (4 / 10) + (100 - m) * (4 / 10) + dl * (2 / 10)
     \<le> x * (4 / 10) + 454 / 10"
  by argo

lemma unstudied_arith:
  "(0::real) \<le> xu \<Longrightarrow> 1 \<le> d \<Longrightarrow> 600 \<le> xu * (4 / 10) + 400 + (d + 999) * (2 / 10)"
  by argo

lemma dominate_arith:
  "s' \<le> x * (4 / 10) + 454 / 10 \<Longrightarrow> x \<le> h \<Longrightarrow> h \<le> 1386 \<Longrightarrow> 600 \<le> su
     \<Longrightarrow> s' < (su::real)"
  by argo

lemma studied_score_bound:
  assumes "topic_score a d ls sc t = Inr s" and "sc t = Some c" and "0 < c"
    and "map_of a t = Some x"
  shows "s \<le> x * (4 / 10) + 454 / 10"
proof -
  from assms obtain l where l: "ls t = Some l"
    by (auto simp: topic_score_def split: option.splits)
  define m where "m = min_list (map (\<lambda>interval. \<bar>(d - l) - interval\<bar>) optimal_intervals)"
  from spaced_int_bound [of "d - l"] have "(d - l) - 2 * m \<le> 30" by (simp add: m_def)
  then have "real_of_int ((d - l) - 2 * m) \<le> real_of_int 30" by (rule of_int_le_iff [THEN iffD2])
  then have b: "real_of_int (d - l) - 2 * real_of_int m \<le> 30" by simp
  from assms(3) have c: "1 \<le> real_of_int c" by simp
  from assms l have "s = (x - real_of_int c * (3 / 2)) * (4 / 10)
      + (100 - real_of_int m) * (4 / 10) + real_of_int (d - l) * (2 / 10)"
    by (simp add: topic_score_def m_def Let_def)
  with studied_arith [OF b c] show ?thesis by simp
qed

text \<open>
  C4. Let \<open>u\<close> be the only topic with \<open>study_count = 0\<close>, carrying the sentinel
  \<open>last_studied = -999\<close> that \<open>_generate_sessions\<close> gives a topic never studied, let
  every other topic have a positive \<open>study_count\<close>, and let \<open>day\<close> be at least 1. If the
  allocation entries lie between 0 and \<open>total_days * daily_hours\<close>, and that budget is at
  most 1386 hours, then \<open>_select_topic_for_day\<close> returns \<open>u\<close>: its score is at least
  600, and a studied topic scores at most \<open>0.4 * allocation + 45.4\<close>, because
  \<open>0.4 * spaced_score + 0.2 * days_since\<close> never exceeds 46 for a studied topic.
\<close>

theorem select_topic_for_day_never_studied:
  assumes "u \<in> set topics"
    and "study_count u = Some 0" and "last_studied u = Some (- 999)" and "1 \<le> day"
    and "\<forall>t \<in> set topics. t \<noteq> u \<longrightarrow>
           (\<exists>c l. study_count t = Some c \<and> 0 < c \<and> last_studied t = Some l)"
    and "\<forall>t \<in> set topics. \<exists>x. map_of allocation t = Some x \<and> 0 \<le> x
           \<and> x \<le> real_of_int n_days * hours"
    and "real_of_int n_days * hours \<le> 1386"
  shows "select_topic_for_day topics allocation day last_studied study_count = Inr u"
proof -
  from assms(1,6) obtain xu where xu: "map_of allocation u = Some xu" "0 \<le> xu" by blast
  define su where "su = xu * (4 / 10) + 400 + real_of_int (day + 999) * (2 / 10)"
  have su: "topic_score allocation day last_studied study_count u = Inr su"
    using assms(2,3) xu by (simp add: topic_score_def su_def)
  from assms(4) have d1: "1 \<le> real_of_int day" by simp
  have "su = xu * (4 / 10) + 400 + (real_of_int day + 999) * (2 / 10)"
    by (simp add: su_def)
  with unstudied_arith [OF xu(2) d1] have big: "600 \<le> su" by simp
  have lower: "\<exists>s'. topic_score allocation day last_studied study_count t = Inr s' \<and> s' < su"
    if t: "t \<in> set topics" "t \<noteq> u" for t
  proof -
    from assms(5) t obtain c l where c: "study_count t = Some c" "0 < c"
      and l: "last_studied t = Some l" by blast
    from assms(6) t obtain x where x: "map_of allocation t = Some x"
      "x \<le> real_of_int n_days * hours" by blast
    from c l x obtain s' where s': "topic_score allocation day last_studied study_count t = Inr s'"
      by (simp add: topic_score_def Let_def)
    from studied_score_bound [OF s' c x(1)] have "s' \<le> x * (4 / 10) + 454 / 10" .
    from this x(2) assms(7) big have "s' < su" by (rule dominate_arith)
    with s' show ?thesis by blast
  qed
  from assms(1) su lower show ?thesis by (rule select_topic_for_day_dominant)
qed


theorem select_topic_for_day_never_studied_witness:
  "select_topic_for_day [''A'', ''B''] [(''A'', 1), (''B'', 1)] 2
     [''A'' \<mapsto> 1, ''B'' \<mapsto> - 999] [''A'' \<mapsto> 1, ''B'' \<mapsto> 0] = Inr ''B''"
proof -
  have "''B'' \<in> set [''A'', ''B'']" by simp
  moreover have "[''A'' \<mapsto> 1, ''B'' \<mapsto> 0::int] ''B'' = Some 0" by simp
  moreover have "[''A'' \<mapsto> 1, ''B'' \<mapsto> - 999::int] ''B'' = Some (- 999)" by simp
  moreover have "(1::int) \<le> 2" by simp
  moreover have "\<forall>t \<in> set [''A'', ''B'']. t \<noteq> ''B'' \<longrightarrow>
      (\<exists>c l. [''A'' \<mapsto> 1, ''B'' \<mapsto> 0::int] t = Some c \<and> 0 < c
         \<and> [''A'' \<mapsto> 1, ''B'' \<mapsto> - 999::int] t = Some l)"
    by simp
  moreover have "\<forall>t \<in> set [''A'', ''B'']. \<exists>x. map_of [(''A'', 1), (''B'', 1::real)] t = Some x
      \<and> 0 \<le> x \<and> x \<le> real_of_int 2 * 1"
    by simp
  moreover have "real_of_int 2 * (1::real) \<le> 1386" by simp
  ultimately show ?thesis by (rule select_topic_for_day_never_studied)
qed

text \<open>
  The bound on the budget is needed: with an allocation of 1425 hours for a topic studied
  the day before, that topic outscores the one never studied.
\<close>

lemma select_topic_for_day_large_budget:
  "select_topic_for_day [''A'', ''B''] [(''A'', 1425), (''B'', 15)] 2
     [''A'' \<mapsto> 1, ''B'' \<mapsto> - 999] [''A'' \<mapsto> 1, ''B'' \<mapsto> 0] = Inr ''A''"
  by (simp add: select_topic_for_day_def topic_score_def optimal_intervals_def py_max_key_def)

subsection \<open>Session generation\<close>

lemma bind_error_Inr: "bind_error m f = Inr y \<longleftrightarrow> (\<exists>x. m = Inr x \<and> f x = Inr y)"
  by (cases m) (simp_all add: bind_error_def)

lemma py_int_of_str_two_digits:
  "py_int_of_str ''06'' = Inr 6" "py_int_of_str ''07'' = Inr 7" "py_int_of_str ''14'' = Inr 14"
  "py_int_of_str ''18'' = Inr 18" "py_int_of_str ''21'' = Inr 21"
  by (simp_all add: py_int_of_str_def digits_value_def digit_value_def digit_chars_def)

lemma flexible_slot:
  "py_getitem [''07:00'', ''14:00'', ''18:00''] (day mod 3) =
     Inr (if day mod 3 = 0 then ''07:00'' else if day mod 3 = 1 then ''14:00'' else ''18:00'')"
proof -
  have "day mod 3 = 0 \<or> day mod 3 = 1 \<or> day mod 3 = 2" by presburger
  then show ?thesis by (auto simp: py_getitem_def)
qed

lemma get_optimal_time_slot_hour:
  assumes "get_optimal_time_slot preference day hours = Inr slot"
  shows "\<exists>hour. py_int_of_str (before_colon slot) = Inr hour \<and> hour \<in> {6, 7, 14, 18, 21}"
proof (cases preference)
  case FLEXIBLE
  with assms show ?thesis
    by (auto simp: get_optimal_time_slot_def flexible_slot before_colon_def
        py_int_of_str_two_digits split: if_splits)
qed (use assms in \<open>auto simp: get_optimal_time_slot_def before_colon_def py_int_of_str_two_digits\<close>)

lemma get_optimal_time_slot_total:
  "\<exists>slot. get_optimal_time_slot preference day hours = Inr slot"
  by (cases preference)
    (auto simp: get_optimal_time_slot_def flexible_slot before_colon_def py_int_of_str_two_digits)

lemma estimate_focus_level_slot:
  assumes "py_int_of_str (before_colon slot) = Inr hour" and "hour \<in> {6, 7, 14, 18, 21}"
  shows "\<exists>f. estimate_focus_level slot day = Inr f \<and> (f = ''Medium'' \<or> f = ''Low'')"
  using assms by (auto simp: estimate_focus_level_def)


lemma get_session_difficulty_total:
  "n \<noteq> 0 \<Longrightarrow> \<exists>x. get_session_difficulty b d n = Inr x"
  by (cases b)
    (simp_all add: get_session_difficulty_def py_index_difficulties Let_def py_getitem_def
      difficulties_def)

lemma select_study_techniques_total:
  "\<exists>x. select_study_techniques dif style d = Inr x"
  by (simp add: select_study_techniques_def get_or_entry_def study_techniques_table_def
      split: option.splits)

lemma generate_session_goals_total:
  "\<exists>x. generate_session_goals t (generate_subtopics t d g) g = Inr x"
  by (simp add: generate_session_goals_def generate_subtopics_def py_getitem_def)

lemma get_learning_resources_total:
  "\<exists>x. get_learning_resources t style = Inr x"
  by (simp add: get_learning_resources_def get_or_entry_def learning_resources_def
      split: option.splits)

lemma get_pre_session_prep_total: "\<exists>x. get_pre_session_prep d t = Inr x"
  by (simp add: get_pre_session_prep_def py_getitem_def)

lemma get_post_session_review_total: "\<exists>x. get_post_session_review d t = Inr x"
  by (simp add: get_post_session_review_def py_getitem_def)

lemma topic_score_total:
  assumes "ls t = Some l" and "map_of a t = Some x" and "sc t = Some c"
  shows "\<exists>s. topic_score a d ls sc t = Inr s"
  using assms by (simp add: topic_score_def Let_def)

lemma compose_session_props:
  assumes "compose_session topics a n h b pref style be g start ls sc d = Inr s"
  shows "date s = start + int d" and "duration_minutes s = py_int (float_round (h * 60))"
    and "estimated_focus_level s = ''Medium'' \<or> estimated_focus_level s = ''Low''"
    and "topic s \<in> set topics"
proof -
  from assms obtain cur chosen slot focus where
    cur: "add_days start (int d) = Inr cur"
    and chosen: "select_topic_for_day topics a (int d + 1) ls sc = Inr chosen"
    and slot: "get_optimal_time_slot pref (int d + 1) h = Inr slot"
    and focus: "estimate_focus_level slot (int d + 1) = Inr focus"
    and s: "date s = cur" "duration_minutes s = py_int (float_round (h * 60))"
      "estimated_focus_level s = focus" "topic s = chosen"
    by (auto simp: compose_session_def bind_error_Inr Let_def)
  from cur show "date s = start + int d"
    by (auto simp: s add_days_def split: if_splits)
  show "duration_minutes s = py_int (float_round (h * 60))" by (rule s)
  from get_optimal_time_slot_hour [OF slot] obtain hour where
    "py_int_of_str (before_colon slot) = Inr hour" "hour \<in> {6, 7, 14, 18, 21}" by blast
  from estimate_focus_level_slot [OF this, of "int d + 1"] focus
  show "estimated_focus_level s = ''Medium'' \<or> estimated_focus_level s = ''Low''"
    by (auto simp: s)
  from select_topic_for_day_in_topics [OF chosen] show "topic s \<in> set topics"
    by (simp add: s)
qed

lemma compose_session_total:
  assumes "1 \<le> start + int d" and "start + int d \<le> max_ordinal" and "topics \<noteq> []"
    and "\<forall>t \<in> set topics. \<exists>x. topic_score a (int d + 1) ls sc t = Inr x"
    and "n \<noteq> 0"
  shows "\<exists>s. compose_session topics a n h b pref style be g start ls sc d = Inr s"
proof -
  from assms(1,2) have cur: "add_days start (int d) = Inr (start + int d)"
    by (simp add: add_days_def)
  from select_topic_for_day_total [OF assms(3,4)] obtain chosen where
    chosen: "select_topic_for_day topics a (int d + 1) ls sc = Inr chosen" by blast
  from get_optimal_time_slot_total obtain slot where
    slot: "get_optimal_time_slot pref (int d + 1) h = Inr slot" by blast
  from get_session_difficulty_total [OF assms(5)] obtain dif where
    dif: "get_session_difficulty b (int d + 1) n = Inr dif" by blast
  from select_study_techniques_total obtain tech where
    tech: "select_study_techniques dif style (int d + 1) = Inr tech" by blast
  from generate_session_goals_total obtain gs where
    gs: "generate_session_goals chosen (generate_subtopics chosen (int d + 1) g) g = Inr gs"
    by blast
  from get_learning_resources_total obtain res where
    res: "get_learning_resources chosen style = Inr res" by blast
  from get_optimal_time_slot_hour [OF slot] obtain hour where
    "py_int_of_str (before_colon slot) = Inr hour" "hour \<in> {6, 7, 14, 18, 21}" by blast
  from estimate_focus_level_slot [OF this] obtain focus where
    focus: "estimate_focus_level slot (int d + 1) = Inr focus" by blast
  from get_pre_session_prep_total obtain pre where
    pre: "get_pre_session_prep (int d + 1) chosen = Inr pre" by blast
  from get_post_session_review_total obtain post where
    post: "get_post_session_review (int d + 1) chosen = Inr post" by blast
  show ?thesis
    by (simp add: compose_session_def Let_def bind_error_def cur chosen slot dif tech gs res
        focus pre post)
qed


lemma sessions_loop_props:
  assumes "sessions_loop topics a n h b pref style be g start ds ls sc acc = Inr ss"
  shows "\<exists>new. ss = acc @ new
    \<and> map date new = map (\<lambda>d. start + int d) ds
    \<and> (\<forall>s \<in> set new. duration_minutes s = py_int (float_round (h * 60))
          \<and> (estimated_focus_level s = ''Medium'' \<or> estimated_focus_level s = ''Low''))"
  using assms
proof (induction ds arbitrary: ls sc acc)
  case Nil
  then show ?case by simp
next
  case (Cons d ds)
  from Cons.prems obtain s k where
    s: "compose_session topics a n h b pref style be g start ls sc d = Inr s"
    and k: "sc (topic s) = Some k"
    and rest: "sessions_loop topics a n h b pref style be g start ds
        (ls(topic s \<mapsto> int d + 1)) (sc(topic s \<mapsto> k + 1)) (acc @ [s]) = Inr ss"
    by (auto simp: bind_error_Inr split: option.splits)
  from Cons.IH [OF rest] obtain new where
    new: "ss = (acc @ [s]) @ new" "map date new = map (\<lambda>d. start + int d) ds"
      "\<forall>s \<in> set new. duration_minutes s = py_int (float_round (h * 60))
          \<and> (estimated_focus_level s = ''Medium'' \<or> estimated_focus_level s = ''Low'')"
    by blast
  from compose_session_props [OF s] new
  have "ss = acc @ (s # new)"
    and "map date (s # new) = map (\<lambda>d. start + int d) (d # ds)"
    and "\<forall>x \<in> set (s # new). duration_minutes x = py_int (float_round (h * 60))
          \<and> (estimated_focus_level x = ''Medium'' \<or> estimated_focus_level x = ''Low'')"
    by simp_all
  then show ?case by blast
qed

lemma sessions_loop_total:
  assumes "topics \<noteq> []" and "n \<noteq> 0"
    and "\<forall>d \<in> set ds. 1 \<le> start + int d \<and> start + int d \<le> max_ordinal"
    and "set topics \<subseteq> dom ls" and "set topics \<subseteq> dom sc"
    and "set topics \<subseteq> dom (map_of a)"
  shows "\<exists>ss. sessions_loop topics a n h b pref style be g start ds ls sc acc = Inr ss"
  using assms(3-5)
proof (induction ds arbitrary: ls sc acc)
  case Nil
  then show ?case by simp
next
  case (Cons d ds)
  have "\<forall>t \<in> set topics. \<exists>x. topic_score a (int d + 1) ls sc t = Inr x"
  proof
    fix t assume t: "t \<in> set topics"
    with Cons.prems(2,3) assms(6) obtain l c x where
      "ls t = Some l" "sc t = Some c" "map_of a t = Some x" by blast
    then show "\<exists>x. topic_score a (int d + 1) ls sc t = Inr x"
      by (metis topic_score_total)
  qed
  with compose_session_total [of start d topics a ls sc n h b pref style be g]
    Cons.prems(1) assms(1,2)
  obtain s where s: "compose_session topics a n h b pref style be g start ls sc d = Inr s"
    by auto
  from compose_session_props(4) [OF s] Cons.prems(3) obtain k where
    k: "sc (topic s) = Some k" by blast
  have "\<exists>ss. sessions_loop topics a n h b pref style be g start ds
        (ls(topic s \<mapsto> int d + 1)) (sc(topic s \<mapsto> k + 1)) (acc @ [s]) = Inr ss"
    using Cons.prems by (intro Cons.IH) auto
  with s k show ?case by (simp add: bind_error_def)
qed

lemma generate_sessions_props:
  assumes "generate_sessions topics a n h b pref style be g start = Inr ss"
  shows "map date ss = map (\<lambda>d. start + int d) [0..<nat n]"
    and "\<forall>s \<in> set ss. duration_minutes s = py_int (float_round (h * 60))
          \<and> (estimated_focus_level s = ''Medium'' \<or> estimated_focus_level s = ''Low'')"
  using sessions_loop_props [OF assms [unfolded generate_sessions_def]] by auto

lemma dom_map_of_const: "dom (map_of (map (\<lambda>t. (t, c)) ts)) = set ts"
  by (simp add: dom_map_of_conv_image_fst image_comp comp_def)

lemma generate_sessions_total:
  assumes "topics \<noteq> []" and "1 \<le> start" and "start + n - 1 \<le> max_ordinal"
    and "set topics \<subseteq> dom (map_of a)"
  shows "\<exists>ss. generate_sessions topics a n h b pref style be g start = Inr ss"
proof (cases "n \<le> 0")
  case True
  then show ?thesis by (simp add: generate_sessions_def)
next
  case False
  then have "n \<noteq> 0" by simp
  moreover from False assms(2,3)
  have "\<forall>d \<in> set [0..<nat n]. 1 \<le> start + int d \<and> start + int d \<le> max_ordinal"
    by auto
  ultimately show ?thesis
    unfolding generate_sessions_def
    using assms(1,4) by (intro sessions_loop_total) (simp_all add: dom_map_of_const)
qed

subsection \<open>Plan generation\<close>

lemma weekly_reviews_loop_total:
  assumes "\<forall>k. 1 \<le> today k \<and> today k + n \<le> max_ordinal" and "0 \<le> week"
  shows "\<exists>rs. weekly_reviews_loop today n week k reviews = Inr rs"
  using assms
proof (induction today n week k reviews rule: weekly_reviews_loop.induct)
  case (1 today n_days week k reviews)
  show ?case
  proof (cases "week \<le> n_days")
    case True
    with "1.prems" have ok: "add_days (today k) week = Inr (today k + week)"
      by (auto simp: add_days_def dest: spec [of _ k])
    from "1.IH" [OF True ok] "1.prems"
    obtain rs where "weekly_reviews_loop today n_days (week + 7) (Suc k)
        (reviews @ [\<lparr>week_number = week div 7, review_date = today k + week\<rparr>]) = Inr rs"
      by auto
    with True ok show ?thesis by simp
  next
    case False
    then show ?thesis by simp
  qed
qed

lemma allocation_keys:
  assumes "calculate_topic_allocation topics n h ck wa = Inr a"
  shows "set topics \<subseteq> dom (map_of a)"
proof (cases "topics = []")
  case True
  then show ?thesis by simp
next
  case False
  then have "weights_loop ck wa topics [] \<noteq> []"
    using weights_loop_keys [of ck wa topics "[]"] by auto
  with assms have "total_weight ck wa topics \<noteq> 0"
    by (cases "weights_loop ck wa topics []")
      (auto simp: calculate_topic_allocation_def Let_def split: if_splits)
  from calculate_topic_allocation_result [OF this, of n h] assms
  have "fst ` set a = fst ` set (weights_loop ck wa topics [])"
    by (auto simp: image_image case_prod_unfold)
  then show ?thesis
    by (simp add: dom_map_of_conv_image_fst weights_loop_keys)
qed

lemma calculate_topic_allocation_total:
  assumes "topics = [] \<or> total_weight ck wa topics \<noteq> 0"
  shows "\<exists>a. calculate_topic_allocation topics n h ck wa = Inr a"
proof (cases "topics = []")
  case True
  then show ?thesis by (simp add: calculate_topic_allocation_def)
next
  case False
  with assms calculate_topic_allocation_result [of ck wa topics n h] show ?thesis by simp
qed

lemma generate_plan_sessions:
  assumes "generate_plan clk subj topics g b n h exam pref style ck wa be = Inr p"
  shows "\<exists>a. generate_sessions topics a n h b pref style be g (start_day clk)
    = Inr (sessions p)"
  using assms by (auto simp: generate_plan_def bind_error_Inr Let_def)

lemma generate_plan_total:
  assumes "topics = [] \<or> total_weight (initial_knowledge topics ck) (initial_weak_areas wa) topics \<noteq> 0"
    and "n \<le> 0 \<or> (topics \<noteq> [] \<and> clock_in_range clk n)"
  shows "\<exists>p. generate_plan clk subj topics g b n h exam pref style ck wa be = Inr p"
proof -
  from calculate_topic_allocation_total [OF assms(1)] obtain a where
    a: "calculate_topic_allocation topics n h (initial_knowledge topics ck)
          (initial_weak_areas wa) = Inr a" by blast
  have "\<exists>ss. generate_sessions topics a n h b pref style be g (start_day clk) = Inr ss"
  proof (cases "n \<le> 0")
    case True
    then show ?thesis by (simp add: generate_sessions_def)
  next
    case False
    with assms(2) have "topics \<noteq> []" "1 \<le> start_day clk"
      "start_day clk + n - 1 \<le> max_ordinal"
      by (simp_all add: clock_in_range_def)
    then show ?thesis using allocation_keys [OF a] by (rule generate_sessions_total)
  qed
  then obtain ss where
    ss: "generate_sessions topics a n h b pref style be g (start_day clk) = Inr ss" by blast
  have "\<exists>rs. generate_weekly_reviews (review_day clk) n = Inr rs"
  proof (cases "n \<le> 0")
    case True
    then show ?thesis by (simp add: generate_weekly_reviews_def)
  next
    case False
    with assms(2) have "\<forall>k. 1 \<le> review_day clk k \<and> review_day clk k + n \<le> max_ordinal"
      by (simp add: clock_in_range_def)
    then show ?thesis
      unfolding generate_weekly_reviews_def by (rule weekly_reviews_loop_total) simp
  qed
  then obtain rs where rs: "generate_weekly_reviews (review_day clk) n = Inr rs" by blast
  show ?thesis by (simp add: generate_plan_def Let_def bind_error_def a ss rs)
qed


lemma consecutive_dates:
  "sorted_wrt (<) (map (\<lambda>i. c + int i) [0..<n])"
  "distinct (map (\<lambda>i. c + int i) [0..<n])"
  by (simp_all add: sorted_wrt_map distinct_map inj_on_def)

text \<open>
  C1. For \<open>total_days > 0\<close>, \<open>daily_hours > 0\<close> and a non-empty topic list, every plan
  that \<open>generate_plan\<close> returns has exactly \<open>total_days\<close> sessions, and their dates are
  the \<open>total_days\<close> consecutive dates from the generation date on, strictly increasing
  and without repetition. A plan is returned whenever the allocation weights do not sum
  to zero and the dates stay within the range of Python's calendar.
\<close>

theorem generate_plan_session_dates:
  assumes "0 < n_days" and "0 < hours" and "topics \<noteq> []"
  shows "(\<forall>p. generate_plan clk subj topics study_goal b n_days hours exam pref style ck wa be
            = Inr p \<longrightarrow>
           int (length (sessions p)) = n_days
         \<and> map date (sessions p) = map (\<lambda>i. start_day clk + int i) [0..<nat n_days]
         \<and> sorted_wrt (<) (map date (sessions p))
         \<and> distinct (map date (sessions p)))
    \<and> (total_weight (initial_knowledge topics ck) (initial_weak_areas wa) topics \<noteq> 0
         \<and> clock_in_range clk n_days \<longrightarrow>
       (\<exists>p. generate_plan clk subj topics study_goal b n_days hours exam pref style ck wa be
            = Inr p))"
proof (intro conjI allI impI)
  fix p
  assume "generate_plan clk subj topics study_goal b n_days hours exam pref style ck wa be
    = Inr p"
  from generate_plan_sessions [OF this] obtain a where
    "generate_sessions topics a n_days hours b pref style be study_goal (start_day clk)
       = Inr (sessions p)" by blast
  from generate_sessions_props(1) [OF this]
  have dates: "map date (sessions p) = map (\<lambda>i. start_day clk + int i) [0..<nat n_days]" .
  then show "map date (sessions p) = map (\<lambda>i. start_day clk + int i) [0..<nat n_days]" .
  from dates have "length (map date (sessions p)) = nat n_days" by simp
  with assms(1) show "int (length (sessions p)) = n_days" by simp
  from dates show "sorted_wrt (<) (map date (sessions p))"
    by (simp only: consecutive_dates)
  from dates show "distinct (map date (sessions p))"
    by (simp only: consecutive_dates)
next
  assume "total_weight (initial_knowledge topics ck) (initial_weak_areas wa) topics \<noteq> 0
    \<and> clock_in_range clk n_days"
  with assms(3) show "\<exists>p. generate_plan clk subj topics study_goal b n_days hours exam pref
      style ck wa be = Inr p"
    by (intro generate_plan_total) simp_all
qed

lemma example_weight:
  "total_weight (initial_knowledge [''A'', ''B''] None) (initial_weak_areas None)
     [''A'', ''B''] = 200"
  by (simp add: total_weight_def topic_weight_def initial_knowledge_def initial_weak_areas_def)

lemma example_clock_in_range: "clock_in_range example_clock 2"
  by (simp add: clock_in_range_def example_clock_def max_ordinal_def)

theorem generate_plan_session_dates_witness:
  "\<exists>p. generate_plan example_clock ''S'' [''A'', ''B''] EXAM_PREP INTERMEDIATE 2 (3 / 2) None
         FLEXIBLE ''visual'' None None True = Inr p
     \<and> int (length (sessions p)) = 2
     \<and> map date (sessions p) = [739252, 739253]"
proof -
  have h: "(0::int) < 2" "(0::real) < 3 / 2" "[''A'', ''B''] \<noteq> []" by simp_all
  note inst = generate_plan_session_dates [OF h, of example_clock "''S''" EXAM_PREP INTERMEDIATE
      None FLEXIBLE "''visual''" None None True]
  from inst example_weight example_clock_in_range obtain p where
    p: "generate_plan example_clock ''S'' [''A'', ''B''] EXAM_PREP INTERMEDIATE 2 (3 / 2) None
         FLEXIBLE ''visual'' None None True = Inr p" by auto
  with inst have "int (length (sessions p)) = 2"
    and "map date (sessions p) = map (\<lambda>i. start_day example_clock + int i) [0..<nat 2]"
    by blast+
  moreover have "map (\<lambda>i. start_day example_clock + int i) [0..<nat 2] = [739252, 739253]"
    by (simp add: example_clock_def upt_rec)
  ultimately show ?thesis using p by auto
qed

text \<open>
  C9 (as the code has it). On every day of every generated plan \<open>duration_minutes\<close> is
  \<open>int(daily_hours * 60)\<close>: the floating-point product truncated towards zero, not
  rounded to the nearest integer, the same value on every day.
\<close>

theorem generate_plan_duration_truncated:
  "\<forall>p. generate_plan clk subj topics study_goal b n_days hours exam pref style ck wa be = Inr p
     \<longrightarrow> (\<forall>s \<in> set (sessions p). duration_minutes s = py_int (float_round (hours * 60)))"
proof (intro allI impI)
  fix p
  assume "generate_plan clk subj topics study_goal b n_days hours exam pref style ck wa be
    = Inr p"
  from generate_plan_sessions [OF this] obtain a where
    "generate_sessions topics a n_days hours b pref style be study_goal (start_day clk)
       = Inr (sessions p)" by blast
  from generate_sessions_props(2) [OF this]
  show "\<forall>s \<in> set (sessions p). duration_minutes s = py_int (float_round (hours * 60))" by blast
qed

theorem generate_plan_duration_truncated_witness:
  "\<exists>p. generate_plan example_clock ''S'' [''A'', ''B''] EXAM_PREP INTERMEDIATE 2
         (5404319552844595 / 2 ^ 54) None FLEXIBLE ''visual'' None None True = Inr p
     \<and> sessions p \<noteq> []
     \<and> (\<forall>s \<in> set (sessions p). duration_minutes s = 18)"
proof -
  have "\<exists>p. generate_plan example_clock ''S'' [''A'', ''B''] EXAM_PREP INTERMEDIATE 2
      (5404319552844595 / 2 ^ 54) None FLEXIBLE ''visual'' None None True = Inr p"
    by (rule generate_plan_total) (simp_all add: example_weight example_clock_in_range)
  then obtain p where p: "generate_plan example_clock ''S'' [''A'', ''B''] EXAM_PREP
      INTERMEDIATE 2 (5404319552844595 / 2 ^ 54) None FLEXIBLE ''visual'' None None True
      = Inr p" by blast
  from generate_plan_sessions [OF p] obtain a where
    "generate_sessions [''A'', ''B''] a 2 (5404319552844595 / 2 ^ 54) INTERMEDIATE FLEXIBLE
       ''visual'' True EXAM_PREP (start_day example_clock) = Inr (sessions p)" by blast
  from generate_sessions_props(1) [OF this] have "length (map date (sessions p)) = 2"
    by simp
  then have nonempty: "sessions p \<noteq> []" by auto
  have "py_int (float_round (5404319552844595 / 2 ^ 54 * 60)) = 18"
    by (rule float_round_examples)
  with generate_plan_duration_truncated p
  have "\<forall>s \<in> set (sessions p). duration_minutes s = 18" by metis
  with p nonempty show ?thesis by blast
qed

text \<open>
  C9 as the specification words it, with \<open>round(daily_hours * 60)\<close>, does not hold: for
  \<open>daily_hours = 1.3125\<close> the product is 78.75, the session lasts 78 minutes, and the
  rounded value is 79. (1.3125 and 78.75 are binary fractions, so the floating-point
  computation is exact there as well.)
\<close>

theorem generate_plan_duration_not_rounded:
  "map duration_minutes
     (sessions (projr (generate_plan example_clock ''S'' [''A''] EXAM_PREP INTERMEDIATE 1
        (21 / 16) None FLEXIBLE ''visual'' None None True))) = [78]
   \<and> py_round (21 / 16 * 60) = 79"
proof
  show "map duration_minutes
     (sessions (projr (generate_plan example_clock ''S'' [''A''] EXAM_PREP INTERMEDIATE 1
        (21 / 16) None FLEXIBLE ''visual'' None None True))) = [78]"
    by code_simp
  show "py_round (21 / 16 * 60) = 79"
    by (simp add: py_round_def round_half_even_def)
qed

text \<open>
  C10. In every plan that \<open>generate_plan\<close> returns, the focus level of every session is
  \<open>Medium\<close> or \<open>Low\<close>, never \<open>High\<close> or \<open>Medium-High\<close>: every time slot that
  \<open>_get_optimal_time_slot\<close> produces starts at hour 6, 7, 14, 18 or 21.
\<close>

theorem generate_plan_focus_medium_or_low:
  "(\<forall>p. generate_plan clk subj topics study_goal b n_days hours exam pref style ck wa be = Inr p
      \<longrightarrow> (\<forall>s \<in> set (sessions p).
             estimated_focus_level s = ''Medium'' \<or> estimated_focus_level s = ''Low''))
   \<and> (\<forall>slot. get_optimal_time_slot pref day_number hours = Inr slot \<longrightarrow>
         (\<exists>hour. py_int_of_str (before_colon slot) = Inr hour \<and> hour \<in> {6, 7, 14, 18, 21}))"
proof (intro conjI allI impI)
  fix p
  assume "generate_plan clk subj topics study_goal b n_days hours exam pref style ck wa be
    = Inr p"
  from generate_plan_sessions [OF this] obtain a where
    "generate_sessions topics a n_days hours b pref style be study_goal (start_day clk)
       = Inr (sessions p)" by blast
  from generate_sessions_props(2) [OF this]
  show "\<forall>s \<in> set (sessions p).
      estimated_focus_level s = ''Medium'' \<or> estimated_focus_level s = ''Low''" by blast
next
  fix slot
  assume "get_optimal_time_slot pref day_number hours = Inr slot"
  then show "\<exists>hour. py_int_of_str (before_colon slot) = Inr hour \<and> hour \<in> {6, 7, 14, 18, 21}"
    by (rule get_optimal_time_slot_hour)
qed

theorem generate_plan_focus_medium_or_low_witness:
  "\<exists>p. generate_plan example_clock ''S'' [''A'', ''B''] EXAM_PREP INTERMEDIATE 2 (3 / 2) None
         MORNING ''visual'' None None True = Inr p
     \<and> sessions p \<noteq> []
     \<and> (\<forall>s \<in> set (sessions p).
           estimated_focus_level s = ''Medium'' \<or> estimated_focus_level s = ''Low'')
     \<and> get_optimal_time_slot MORNING 1 (3 / 2) = Inr ''06:00 - 07:00''
     \<and> py_int_of_str (before_colon ''06:00 - 07:00'') = Inr 6"
proof -
  have "\<exists>p. generate_plan example_clock ''S'' [''A'', ''B''] EXAM_PREP INTERMEDIATE 2 (3 / 2)
      None MORNING ''visual'' None None True = Inr p"
    by (rule generate_plan_total) (simp_all add: example_weight example_clock_in_range)
  then obtain p where p: "generate_plan example_clock ''S'' [''A'', ''B''] EXAM_PREP
      INTERMEDIATE 2 (3 / 2) None MORNING ''visual'' None None True = Inr p" by blast
  from generate_plan_sessions [OF p] obtain a where
    "generate_sessions [''A'', ''B''] a 2 (3 / 2) INTERMEDIATE MORNING ''visual'' True
       EXAM_PREP (start_day example_clock) = Inr (sessions p)" by blast
  from generate_sessions_props(1) [OF this] have "length (map date (sessions p)) = 2"
    by simp
  then have nonempty: "sessions p \<noteq> []" by auto
  from generate_plan_focus_medium_or_low p
  have focus: "\<forall>s \<in> set (sessions p).
      estimated_focus_level s = ''Medium'' \<or> estimated_focus_level s = ''Low''" by metis
  have slot: "get_optimal_time_slot MORNING 1 (3 / 2) = Inr ''06:00 - 07:00''"
    by (simp add: get_optimal_time_slot_def py_int_def format_02d_def zero_pad_def
        digit_chars_def)
  have hour: "py_int_of_str (before_colon ''06:00 - 07:00'') = Inr 6"
    by (simp add: before_colon_def py_int_of_str_two_digits)
  from p nonempty focus slot hour show ?thesis by blast
qed


text \<open>
  With no topics and at least one day, session generation fails on the first day: the
  score table is empty and \<open>max\<close> raises \<open>ValueError\<close>.
\<close>

lemma generate_plan_no_topics:
  assumes "0 < n_days" and "1 \<le> start_day clk" and "start_day clk \<le> max_ordinal"
  shows "generate_plan clk subj [] study_goal b n_days hours exam pref style ck wa be
    = Inl ValueError"
proof -
  from assms(1) obtain m where m: "nat n_days = Suc m" by (cases "nat n_days") auto
  from assms(2,3) have "add_days (start_day clk) 0 = Inr (start_day clk)"
    by (simp add: add_days_def)
  then show ?thesis
    by (simp add: generate_plan_def calculate_topic_allocation_def generate_sessions_def
        m upt_rec [of 0] compose_session_def select_topic_for_day_def py_max_key_def
        bind_error_def Let_def)
qed

text \<open>
  C6 (as the code has it). \<open>generate_plan\<close> checks none of its arguments. An empty topic
  list with \<open>total_days > 0\<close> fails with the \<open>ValueError\<close> of the topic selector on the
  first day, and no plan is returned. A \<open>total_days \<le> 0\<close> is accepted: unless the
  allocation divides by zero, a plan without sessions is returned. A \<open>daily_hours \<le> 0\<close>
  is accepted as well: a plan with \<open>total_days\<close> sessions is returned.
\<close>

theorem generate_plan_without_validation:
  "(0 < n_days \<and> 1 \<le> start_day clk \<and> start_day clk \<le> max_ordinal \<longrightarrow>
      generate_plan clk subj [] study_goal b n_days hours exam pref style ck wa be
        = Inl ValueError)
   \<and> (n_days \<le> 0
        \<and> (topics = []
            \<or> total_weight (initial_knowledge topics ck) (initial_weak_areas wa) topics \<noteq> 0)
      \<longrightarrow> (\<exists>p. generate_plan clk subj topics study_goal b n_days hours exam pref style ck
                  wa be = Inr p \<and> sessions p = []))
   \<and> (hours \<le> 0 \<and> 0 < n_days \<and> topics \<noteq> []
        \<and> total_weight (initial_knowledge topics ck) (initial_weak_areas wa) topics \<noteq> 0
        \<and> clock_in_range clk n_days
      \<longrightarrow> (\<exists>p. generate_plan clk subj topics study_goal b n_days hours exam pref style ck
                  wa be = Inr p \<and> int (length (sessions p)) = n_days))"
proof (intro conjI impI)
  assume "0 < n_days \<and> 1 \<le> start_day clk \<and> start_day clk \<le> max_ordinal"
  then show "generate_plan clk subj [] study_goal b n_days hours exam pref style ck wa be
      = Inl ValueError"
    by (simp add: generate_plan_no_topics)
next
  assume h: "n_days \<le> 0
    \<and> (topics = []
        \<or> total_weight (initial_knowledge topics ck) (initial_weak_areas wa) topics \<noteq> 0)"
  then have "\<exists>p. generate_plan clk subj topics study_goal b n_days hours exam pref style ck
      wa be = Inr p"
    by (intro generate_plan_total) simp_all
  then obtain p where p: "generate_plan clk subj topics study_goal b n_days hours exam pref
      style ck wa be = Inr p" by blast
  from generate_plan_sessions [OF p] obtain a where
    "generate_sessions topics a n_days hours b pref style be study_goal (start_day clk)
       = Inr (sessions p)" by blast
  from generate_sessions_props(1) [OF this] h have "sessions p = []" by simp
  with p show "\<exists>p. generate_plan clk subj topics study_goal b n_days hours exam pref style ck
      wa be = Inr p \<and> sessions p = []" by blast
next
  assume h: "hours \<le> 0 \<and> 0 < n_days \<and> topics \<noteq> []
    \<and> total_weight (initial_knowledge topics ck) (initial_weak_areas wa) topics \<noteq> 0
    \<and> clock_in_range clk n_days"
  then have "\<exists>p. generate_plan clk subj topics study_goal b n_days hours exam pref style ck
      wa be = Inr p"
    by (intro generate_plan_total) simp_all
  then obtain p where p: "generate_plan clk subj topics study_goal b n_days hours exam pref
      style ck wa be = Inr p" by blast
  from generate_plan_sessions [OF p] obtain a where
    "generate_sessions topics a n_days hours b pref style be study_goal (start_day clk)
       = Inr (sessions p)" by blast
  from generate_sessions_props(1) [OF this]
  have "length (map date (sessions p)) = nat n_days" by simp
  with h have "int (length (sessions p)) = n_days" by simp
  with p show "\<exists>p. generate_plan clk subj topics study_goal b n_days hours exam pref style ck
      wa be = Inr p \<and> int (length (sessions p)) = n_days" by blast
qed

theorem generate_plan_without_validation_witness:
  "generate_plan example_clock ''S'' [] EXAM_PREP INTERMEDIATE 2 (3 / 2) None FLEXIBLE
       ''visual'' None None True = Inl ValueError
   \<and> (\<exists>p. generate_plan example_clock ''S'' [''A'', ''B''] EXAM_PREP INTERMEDIATE (- 3) (3 / 2)
          None FLEXIBLE ''visual'' None None True = Inr p \<and> sessions p = [])
   \<and> (\<exists>p. generate_plan example_clock ''S'' [''A'', ''B''] EXAM_PREP INTERMEDIATE 2 (- 1)
          None FLEXIBLE ''visual'' None None True = Inr p \<and> int (length (sessions p)) = 2)"
proof -
  have c: "1 \<le> start_day example_clock" "start_day example_clock \<le> max_ordinal"
    by (simp_all add: example_clock_def max_ordinal_def)
  have w: "total_weight (initial_knowledge [''A'', ''B''] None) (initial_weak_areas None)
     [''A'', ''B''] \<noteq> 0"
    by (simp add: example_weight)
  note a = generate_plan_without_validation [of 2 example_clock "''S''" EXAM_PREP INTERMEDIATE
      "3 / 2" None FLEXIBLE "''visual''" None None True "[]"]
  note b = generate_plan_without_validation [of "- 3" example_clock "''S''" EXAM_PREP
      INTERMEDIATE "3 / 2" None FLEXIBLE "''visual''" None None True "[''A'', ''B'']"]
  note d = generate_plan_without_validation [of 2 example_clock "''S''" EXAM_PREP INTERMEDIATE
      "- 1" None FLEXIBLE "''visual''" None None True "[''A'', ''B'']"]
  from a c have "generate_plan example_clock ''S'' [] EXAM_PREP INTERMEDIATE 2 (3 / 2) None
      FLEXIBLE ''visual'' None None True = Inl ValueError" by simp
  moreover from b w have "\<exists>p. generate_plan example_clock ''S'' [''A'', ''B''] EXAM_PREP
      INTERMEDIATE (- 3) (3 / 2) None FLEXIBLE ''visual'' None None True = Inr p
      \<and> sessions p = []" by simp
  moreover from d w example_clock_in_range
  have "\<exists>p. generate_plan example_clock ''S'' [''A'', ''B''] EXAM_PREP INTERMEDIATE 2 (- 1)
      None FLEXIBLE ''visual'' None None True = Inr p \<and> int (length (sessions p)) = 2"
    by simp
  ultimately show ?thesis by blast
qed

text \<open>
  C6 as the specification words it does not hold: \<open>total_days = 0\<close> raises no
  validation error; the call returns a plan with an empty session list.
\<close>

theorem generate_plan_zero_days_accepted:
  "\<not> isl (generate_plan example_clock ''S'' [''A''] EXAM_PREP INTERMEDIATE 0 1 None FLEXIBLE
        ''visual'' None None True)
   \<and> sessions (projr (generate_plan example_clock ''S'' [''A''] EXAM_PREP INTERMEDIATE 0 1
        None FLEXIBLE ''visual'' None None True)) = []"
  by code_simp

subsection \<open>Plan store\<close>

lemma update_sessions_absent:
  "session_date \<notin> date ` set ss \<Longrightarrow> update_sessions session_date c n t ss = ss"
  by (induction ss) auto

lemma update_sessions_present:
  assumes "session_date \<in> date ` set ss"
  shows "\<exists>j < length ss. date (ss ! j) = session_date
    \<and> (\<forall>j' < j. date (ss ! j') \<noteq> session_date)
    \<and> update_sessions session_date c n t ss =
        ss[j := (ss ! j)\<lparr>completed := c, session_notes := n, completed_at := Some t\<rparr>]"
  using assms
proof (induction ss)
  case Nil
  then show ?case by simp
next
  case (Cons s ss)
  show ?case
  proof (cases "date s = session_date")
    case True
    then show ?thesis by (intro exI [of _ 0]) simp
  next
    case False
    with Cons.prems have "session_date \<in> date ` set ss" by auto
    from Cons.IH [OF this] obtain j where j: "j < length ss" "date (ss ! j) = session_date"
      "\<forall>j' < j. date (ss ! j') \<noteq> session_date"
      "update_sessions session_date c n t ss =
         ss[j := (ss ! j)\<lparr>completed := c, session_notes := n, completed_at := Some t\<rparr>]"
      by blast
    have "\<forall>j' < Suc j. date ((s # ss) ! j') \<noteq> session_date"
    proof (intro allI impI)
      fix j' assume "j' < Suc j"
      with False j(3) show "date ((s # ss) ! j') \<noteq> session_date"
        by (cases j') auto
    qed
    with False j show ?thesis by (intro exI [of _ "Suc j"]) simp
  qed
qed

lemma update_plans_no_plan:
  "List.find (\<lambda>p. plan_id p = pid) ps = None \<Longrightarrow> update_plans pid d c n t ps = ps"
  by (induction ps) (auto split: if_splits)

lemma update_plans_found:
  assumes "List.find (\<lambda>p. plan_id p = pid) ps = Some p"
  shows "\<exists>i < length ps. ps ! i = p \<and> (\<forall>i' < i. plan_id (ps ! i') \<noteq> pid)
    \<and> update_plans pid d c n t ps = ps[i := p\<lparr>sessions := update_sessions d c n t (sessions p)\<rparr>]"
  using assms
proof (induction ps)
  case Nil
  then show ?case by simp
next
  case (Cons q ps)
  show ?case
  proof (cases "plan_id q = pid")
    case True
    with Cons.prems have "q = p" by simp
    with True show ?thesis by (intro exI [of _ 0]) simp
  next
    case False
    with Cons.prems have "List.find (\<lambda>p. plan_id p = pid) ps = Some p" by simp
    from Cons.IH [OF this] obtain i where i: "i < length ps" "ps ! i = p"
      "\<forall>i' < i. plan_id (ps ! i') \<noteq> pid"
      "update_plans pid d c n t ps = ps[i := p\<lparr>sessions := update_sessions d c n t (sessions p)\<rparr>]"
      by blast
    have "\<forall>i' < Suc i. plan_id ((q # ps) ! i') \<noteq> pid"
    proof (intro allI impI)
      fix i' assume "i' < Suc i"
      with False i(3) show "plan_id ((q # ps) ! i') \<noteq> pid"
        by (cases i') auto
    qed
    with False i show ?thesis by (intro exI [of _ "Suc i"]) simp
  qed
qed


text \<open>
  C8 (as the code has it). When the plan that \<open>update_session_progress\<close> addresses, the
  first stored plan with the given \<open>plan_id\<close>, has no session with the given date, or
  when no plan has that \<open>plan_id\<close>, the store is written back unchanged and the result is
  \<open>True\<close>, as for a successful update. When the date is present, the first session with
  that date gets \<open>completed\<close> and \<open>notes\<close> as given and \<open>completed_at\<close> set to the
  timestamp; every other field of that session, every other session and every other plan
  stay as they were, and the result is \<open>True\<close>.
\<close>

theorem update_session_progress_contract:
  "((\<forall>p. List.find (\<lambda>p. plan_id p = pid) plans = Some p \<longrightarrow> d \<notin> date ` set (sessions p))
      \<longrightarrow> update_session_progress (Some \<lparr>study_plans = Some plans\<rparr>) pid d c n t
            = (Some \<lparr>study_plans = Some plans\<rparr>, True))
   \<and> (List.find (\<lambda>p. plan_id p = pid) plans = Some p \<and> d \<in> date ` set (sessions p)
      \<longrightarrow> (\<exists>i j. i < length plans \<and> plans ! i = p
            \<and> (\<forall>i' < i. plan_id (plans ! i') \<noteq> pid)
            \<and> j < length (sessions p) \<and> date (sessions p ! j) = d
            \<and> (\<forall>j' < j. date (sessions p ! j') \<noteq> d)
            \<and> update_session_progress (Some \<lparr>study_plans = Some plans\<rparr>) pid d c n t
                = (Some \<lparr>study_plans = Some (plans[i := p\<lparr>sessions := (sessions p)
                      [j := (sessions p ! j)\<lparr>completed := c, session_notes := n,
                                               completed_at := Some t\<rparr>]\<rparr>])\<rparr>,
                   True)))"
proof (intro conjI impI)
  assume absent: "\<forall>p. List.find (\<lambda>p. plan_id p = pid) plans = Some p
    \<longrightarrow> d \<notin> date ` set (sessions p)"
  have "update_plans pid d c n t plans = plans"
  proof (cases "List.find (\<lambda>p. plan_id p = pid) plans")
    case None
    then show ?thesis by (rule update_plans_no_plan)
  next
    case (Some p)
    with absent have "update_sessions d c n t (sessions p) = sessions p"
      by (simp add: update_sessions_absent)
    with update_plans_found [OF Some, of d c n t] show ?thesis
      by (auto simp: list_update_same_conv)
  qed
  then show "update_session_progress (Some \<lparr>study_plans = Some plans\<rparr>) pid d c n t
      = (Some \<lparr>study_plans = Some plans\<rparr>, True)"
    by (simp add: update_session_progress_def)
next
  assume found: "List.find (\<lambda>p. plan_id p = pid) plans = Some p
    \<and> d \<in> date ` set (sessions p)"
  then have f: "List.find (\<lambda>p. plan_id p = pid) plans = Some p"
    and m: "d \<in> date ` set (sessions p)" by simp_all
  from update_plans_found [OF f, of d c n t] obtain i where
    i: "i < length plans" "plans ! i = p" "\<forall>i' < i. plan_id (plans ! i') \<noteq> pid"
      "update_plans pid d c n t plans
         = plans[i := p\<lparr>sessions := update_sessions d c n t (sessions p)\<rparr>]"
    by blast
  from update_sessions_present [OF m, of c n t] obtain j where
    j: "j < length (sessions p)" "date (sessions p ! j) = d"
      "\<forall>j' < j. date (sessions p ! j') \<noteq> d"
      "update_sessions d c n t (sessions p)
         = (sessions p)[j := (sessions p ! j)\<lparr>completed := c, session_notes := n,
                                                completed_at := Some t\<rparr>]"
    by blast
  have "update_session_progress (Some \<lparr>study_plans = Some plans\<rparr>) pid d c n t
      = (Some \<lparr>study_plans = Some (plans[i := p\<lparr>sessions := (sessions p)
            [j := (sessions p ! j)\<lparr>completed := c, session_notes := n,
                                     completed_at := Some t\<rparr>]\<rparr>])\<rparr>, True)"
    by (simp add: update_session_progress_def i(4) j(4))
  with i(1-3) j(1-3) show "\<exists>i j. i < length plans \<and> plans ! i = p
      \<and> (\<forall>i' < i. plan_id (plans ! i') \<noteq> pid)
      \<and> j < length (sessions p) \<and> date (sessions p ! j) = d
      \<and> (\<forall>j' < j. date (sessions p ! j') \<noteq> d)
      \<and> update_session_progress (Some \<lparr>study_plans = Some plans\<rparr>) pid d c n t
          = (Some \<lparr>study_plans = Some (plans[i := p\<lparr>sessions := (sessions p)
                [j := (sessions p ! j)\<lparr>completed := c, session_notes := n,
                                         completed_at := Some t\<rparr>]\<rparr>])\<rparr>, True)"
    by blast
qed


theorem update_session_progress_contract_witness:
  "update_session_progress (Some \<lparr>study_plans = Some [example_stored_plan]\<rparr>)
       ''plan_20250101_120000'' 739253 True ''done'' ''2025-01-02T08:00:00''
     = (Some \<lparr>study_plans = Some [example_stored_plan]\<rparr>, True)
   \<and> update_session_progress (Some \<lparr>study_plans = Some [example_stored_plan]\<rparr>)
       ''plan_20250101_120000'' 739252 True ''done'' ''2025-01-02T08:00:00''
     = (Some \<lparr>study_plans = Some [example_stored_plan\<lparr>sessions :=
          [example_session\<lparr>completed := True, session_notes := ''done'',
             completed_at := Some ''2025-01-02T08:00:00''\<rparr>]\<rparr>]\<rparr>, True)"
proof -
  have f: "List.find (\<lambda>p. plan_id p = ''plan_20250101_120000'') [example_stored_plan]
      = Some example_stored_plan"
    by (simp add: example_stored_plan_def)
  have ss: "sessions example_stored_plan = [example_session]"
    by (simp add: example_stored_plan_def)
  have dt: "date example_session = 739252"
    by (simp add: example_session_def)
  note inst = update_session_progress_contract [of "''plan_20250101_120000''"
      "[example_stored_plan]" _ True "''done''" "''2025-01-02T08:00:00''" example_stored_plan]
  have absent: "\<forall>p. List.find (\<lambda>p. plan_id p = ''plan_20250101_120000'') [example_stored_plan]
      = Some p \<longrightarrow> 739253 \<notin> date ` set (sessions p)"
    by (simp add: f ss dt)
  from inst [of 739253] absent
  have first: "update_session_progress (Some \<lparr>study_plans = Some [example_stored_plan]\<rparr>)
       ''plan_20250101_120000'' 739253 True ''done'' ''2025-01-02T08:00:00''
     = (Some \<lparr>study_plans = Some [example_stored_plan]\<rparr>, True)"
    by blast
  have present: "List.find (\<lambda>p. plan_id p = ''plan_20250101_120000'') [example_stored_plan]
      = Some example_stored_plan \<and> 739252 \<in> date ` set (sessions example_stored_plan)"
    by (rule conjI [OF f]) (simp add: ss dt)
  from inst [of 739252] present obtain i j where
    ij: "i < length [example_stored_plan]" "j < length (sessions example_stored_plan)"
    and res: "update_session_progress (Some \<lparr>study_plans = Some [example_stored_plan]\<rparr>)
       ''plan_20250101_120000'' 739252 True ''done'' ''2025-01-02T08:00:00''
     = (Some \<lparr>study_plans = Some ([example_stored_plan]
          [i := example_stored_plan\<lparr>sessions := (sessions example_stored_plan)
             [j := (sessions example_stored_plan ! j)\<lparr>completed := True,
                session_notes := ''done'',
                completed_at := Some ''2025-01-02T08:00:00''\<rparr>]\<rparr>])\<rparr>, True)"
    by blast
  from ij have "i = 0" "j = 0" by (simp_all add: ss)
  with res have second: "update_session_progress
       (Some \<lparr>study_plans = Some [example_stored_plan]\<rparr>)
       ''plan_20250101_120000'' 739252 True ''done'' ''2025-01-02T08:00:00''
     = (Some \<lparr>study_plans = Some [example_stored_plan\<lparr>sessions :=
          [example_session\<lparr>completed := True, session_notes := ''done'',
             completed_at := Some ''2025-01-02T08:00:00''\<rparr>]\<rparr>]\<rparr>, True)"
    by (simp add: ss)
  from first second show ?thesis by (rule conjI)
qed

text \<open>
  C8 as the specification words it, with an explicit not-found signal, does not hold: for
  a date that no session of the plan has, the result is \<open>True\<close>, the same result as for
  a date that is present.
\<close>

theorem update_session_progress_unknown_date_succeeds:
  "739253 \<notin> date ` set (sessions example_stored_plan)
   \<and> snd (update_session_progress (Some \<lparr>study_plans = Some [example_stored_plan]\<rparr>)
          ''plan_20250101_120000'' 739253 True ''done'' ''2025-01-02T08:00:00'') = True
   \<and> snd (update_session_progress (Some \<lparr>study_plans = Some [example_stored_plan]\<rparr>)
          ''plan_20250101_120000'' 739252 True ''done'' ''2025-01-02T08:00:00'') = True"
  by (simp add: update_session_progress_def example_stored_plan_def example_session_def)

end
